theory Spec2Isabelle
  imports Complex_Main
begin

section \<open>Numbers and errors\<close>

text \<open>
  The two source files, \<^verbatim>\<open>loan_manager.py\<close> (class \<^verbatim>\<open>LoanScenarioAnalyzer\<close>) and
  \<^verbatim>\<open>loan_app.py\<close> (class \<^verbatim>\<open>LoanAnalyzer\<close>), compute on Python numbers. They are
  embedded twice. The first embedding is over the type \<^typ>\<open>real\<close> with every
  arithmetic operation exact; it carries the statements that do not depend on rounding.
  The second, further down, rounds every operation as IEEE doubles do and carries the
  statements that do. What Python raises is a value of \<open>py_error\<close>; a function that can
  raise returns \<open>py_error + 'a\<close>. The source's name \<^verbatim>\<open>principal\<close> is a constant of the
  library (the principal filter), so it is written \<open>principal_amount\<close> throughout.
\<close>

datatype py_error =
    ZeroDivisionError
  | ValueError
  | TypeError
  | OverflowError
  | ComplexResult
    \<comment> \<open>not an exception: a negative base under a fractional exponent makes Python's
        \<^verbatim>\<open>**\<close> return a complex number and raise nothing. The payment is then a
        complex number, which a \<^typ>\<open>real\<close> cannot hold; \<open>Inl ComplexResult\<close> stands for
        it, and \<^verbatim>\<open>create_amortization_schedule\<close> below goes on from it as Python does\<close>

definition py_truediv :: "real \<Rightarrow> real \<Rightarrow> py_error + real" where
  \<comment> \<open>Python's \<^verbatim>\<open>a / b\<close>\<close>
  "py_truediv a b = (if b = 0 then Inl ZeroDivisionError else Inr (a / b))"

definition py_int :: "real \<Rightarrow> int" where
  \<comment> \<open>Python's \<^verbatim>\<open>int(x)\<close>: truncation towards zero\<close>
  "py_int x = (if 0 \<le> x then \<lfloor>x\<rfloor> else \<lceil>x\<rceil>)"

definition py_range :: "int \<Rightarrow> int \<Rightarrow> nat list" where
  \<comment> \<open>Python's \<^verbatim>\<open>range(a, b)\<close> for \<open>0 \<le> a\<close>; empty when \<open>b \<le> a\<close>\<close>
  "py_range a b = [nat a ..< nat b]"

definition py_pow_int :: "real \<Rightarrow> int \<Rightarrow> py_error + real" where
  \<comment> \<open>Python's \<^verbatim>\<open>b ** n\<close> for a float \<open>b\<close> and an int \<open>n\<close>\<close>
  "py_pow_int b n =
     (if 0 \<le> n then Inr (b ^ nat n)
      else if b = 0 then Inl ZeroDivisionError
      else Inr (1 / b ^ nat (- n)))"

definition py_pow :: "real \<Rightarrow> real \<Rightarrow> py_error + real" where
  \<comment> \<open>Python's \<^verbatim>\<open>b ** e\<close> for a float \<open>b\<close> and a number \<open>e\<close>\<close>
  "py_pow b e =
     (if 0 < b then Inr (b powr e)
      else if e = of_int \<lfloor>e\<rfloor> then py_pow_int b \<lfloor>e\<rfloor>
      else if b = 0 then (if e < 0 then Inl ZeroDivisionError else Inr 0)
      else Inl ComplexResult)"

section \<open>\<^verbatim>\<open>loan_manager.py\<close>: class LoanScenarioAnalyzer\<close>

definition LoanScenarioAnalyzer_calculate_monthly_payment ::
  "real \<Rightarrow> real \<Rightarrow> real \<Rightarrow> py_error + real" where
  "LoanScenarioAnalyzer_calculate_monthly_payment principal_amount annual_rate years =
     (if annual_rate = 0 then py_truediv principal_amount (years * 12)
      else
        let monthly_rate = annual_rate / 100 / 12;
            num_payments = years * 12
        in case py_pow (1 + monthly_rate) num_payments of
             Inl e \<Rightarrow> Inl e
           | Inr pw \<Rightarrow> py_truediv (principal_amount * (monthly_rate * pw)) (pw - 1))"

record schedule_row =
  Payment :: nat
  Beginning_Balance :: real
  Payment_Amount :: real
  Principal :: real
  Interest :: real
  Ending_Balance :: real

text \<open>
  The body of the \<^verbatim>\<open>for month in range(int(years * 12))\<close> loop: the months still to
  run, and the running \<open>balance\<close>. The row is appended before the test
  \<^verbatim>\<open>if balance <= 0: break\<close>.
\<close>

fun schedule_loop :: "real \<Rightarrow> real \<Rightarrow> nat list \<Rightarrow> real \<Rightarrow> schedule_row list" where
  "schedule_loop monthly_rate monthly_payment [] balance = []"
| "schedule_loop monthly_rate monthly_payment (month # months) balance =
     (let interest_payment = balance * monthly_rate;
          principal_payment = monthly_payment - interest_payment;
          balance' = balance - principal_payment;
          row = \<lparr> Payment = month + 1,
                  Beginning_Balance = balance' + principal_payment,
                  Payment_Amount = monthly_payment,
                  Principal = principal_payment,
                  Interest = interest_payment,
                  Ending_Balance = max 0 balance' \<rparr>
      in row # (if balance' \<le> 0 then []
                else schedule_loop monthly_rate monthly_payment months balance'))"

definition LoanScenarioAnalyzer_create_amortization_schedule ::
  "real \<Rightarrow> real \<Rightarrow> real \<Rightarrow> nat \<Rightarrow> py_error + schedule_row list" where
  \<comment> \<open>\<open>start_month\<close> is a parameter of the source that its body never reads\<close>
  "LoanScenarioAnalyzer_create_amortization_schedule principal_amount annual_rate years start_month =
     (let monthly_rate = annual_rate / 100 / 12 in
      case LoanScenarioAnalyzer_calculate_monthly_payment principal_amount annual_rate years of
        Inl e \<Rightarrow>
          if e = ComplexResult
          then (if py_range 0 (py_int (years * 12)) = [] then Inr [] else Inl TypeError)
          else Inl e
      | Inr monthly_payment \<Rightarrow>
          Inr (schedule_loop monthly_rate monthly_payment
                 (py_range 0 (py_int (years * 12))) principal_amount))"

text \<open>
  With a complex payment the loop, if it runs at all, stops in its first pass at
  \<^verbatim>\<open>max(0, balance)\<close>: Python does not order a complex number against \<^verbatim>\<open>0\<close> and raises
  \<^verbatim>\<open>TypeError\<close>. If \<^verbatim>\<open>range(int(years * 12))\<close> is empty the empty schedule is returned.
  \<^verbatim>\<open>scenario_analysis\<close> below passes \<open>Inl ComplexResult\<close> on as it is: its rows would
  hold complex payments, or the comparison \<^verbatim>\<open>monthly_savings > 0\<close> would raise.
\<close>

section \<open>\<^verbatim>\<open>loan_manager.py\<close> on IEEE doubles\<close>

text \<open>
  Python's \<^verbatim>\<open>float\<close> is the IEEE 754 double. Each of \<^verbatim>\<open>+\<close>, \<^verbatim>\<open>-\<close>, \<^verbatim>\<open>*\<close> and \<^verbatim>\<open>/\<close>
  returns the double nearest to the exact result, a tie going to the even neighbour.
  \<open>binary64\<close> is that rounding, for a result within the range of the doubles; an
  overflow to infinity, a NaN and the sign of zero have no counterpart here. The payment
  and the schedule of \<^verbatim>\<open>LoanScenarioAnalyzer\<close> follow once more, with every operation of
  the source rounded in the order Python evaluates it. Their arguments are doubles (an
  \<^verbatim>\<open>int\<close> argument below \<open>2^53\<close> is one).
\<close>

definition round_half_even :: "real \<Rightarrow> int" where
  \<comment> \<open>the nearest integer, a tie going to the even one\<close>
  "round_half_even t =
     (let f = \<lfloor>t\<rfloor> in
      if t - of_int f < 1 / 2 then f
      else if 1 / 2 < t - of_int f then f + 1
      else if even f then f else f + 1)"

definition binary64 :: "real \<Rightarrow> real" where
  \<comment> \<open>the nearest double: 53 significant bits, exponent not below that of the
      subnormal numbers\<close>
  "binary64 x =
     (if x = 0 then 0
      else
        let e = max \<lfloor>log 2 \<bar>x\<bar>\<rfloor> (- 1022);
            u = 2 powr of_int (e - 52)
        in of_int (round_half_even (x / u)) * u)"

definition pow64 :: "real \<Rightarrow> real \<Rightarrow> py_error + real" where
  \<comment> \<open>Python's \<^verbatim>\<open>b ** e\<close> on doubles, the C library's \<^verbatim>\<open>pow\<close> taken as correctly
      rounded; \<^verbatim>\<open>OverflowError\<close> when the result exceeds the largest double\<close>
  "pow64 b e =
     (case py_pow b e of
        Inl err \<Rightarrow> Inl err
      | Inr v \<Rightarrow> if 2 ^ 1024 - 2 ^ 970 \<le> \<bar>v\<bar> then Inl OverflowError else Inr (binary64 v))"

definition py_truediv_double :: "real \<Rightarrow> real \<Rightarrow> py_error + real" where
  \<comment> \<open>Python's \<^verbatim>\<open>a / b\<close> on doubles\<close>
  "py_truediv_double a b = (if b = 0 then Inl ZeroDivisionError else Inr (binary64 (a / b)))"

definition LoanScenarioAnalyzer_calculate_monthly_payment_double ::
  "real \<Rightarrow> real \<Rightarrow> real \<Rightarrow> py_error + real" where
  "LoanScenarioAnalyzer_calculate_monthly_payment_double principal_amount annual_rate years =
     (if annual_rate = 0 then py_truediv_double principal_amount (binary64 (years * 12))
      else
        let monthly_rate = binary64 (binary64 (annual_rate / 100) / 12);
            num_payments = binary64 (years * 12)
        in case pow64 (binary64 (1 + monthly_rate)) num_payments of
             Inl e \<Rightarrow> Inl e
           | Inr pw \<Rightarrow>
               py_truediv_double (binary64 (principal_amount * binary64 (monthly_rate * pw)))
                 (binary64 (pw - 1)))"

fun schedule_loop_double :: "real \<Rightarrow> real \<Rightarrow> nat list \<Rightarrow> real \<Rightarrow> schedule_row list" where
  "schedule_loop_double monthly_rate monthly_payment [] balance = []"
| "schedule_loop_double monthly_rate monthly_payment (month # months) balance =
     (let interest_payment = binary64 (balance * monthly_rate);
          principal_payment = binary64 (monthly_payment - interest_payment);
          balance' = binary64 (balance - principal_payment);
          row = \<lparr> Payment = month + 1,
                  Beginning_Balance = binary64 (balance' + principal_payment),
                  Payment_Amount = monthly_payment,
                  Principal = principal_payment,
                  Interest = interest_payment,
                  Ending_Balance = max 0 balance' \<rparr>
      in row # (if balance' \<le> 0 then []
                else schedule_loop_double monthly_rate monthly_payment months balance'))"

definition LoanScenarioAnalyzer_create_amortization_schedule_double ::
  "real \<Rightarrow> real \<Rightarrow> real \<Rightarrow> nat \<Rightarrow> py_error + schedule_row list" where
  "LoanScenarioAnalyzer_create_amortization_schedule_double principal_amount annual_rate years
       start_month =
     (let monthly_rate = binary64 (binary64 (annual_rate / 100) / 12) in
      case LoanScenarioAnalyzer_calculate_monthly_payment_double principal_amount annual_rate
             years of
        Inl e \<Rightarrow>
          if e = ComplexResult
          then (if py_range 0 (py_int (binary64 (years * 12))) = [] then Inr []
                else Inl TypeError)
          else Inl e
      | Inr monthly_payment \<Rightarrow>
          Inr (schedule_loop_double monthly_rate monthly_payment
                 (py_range 0 (py_int (binary64 (years * 12)))) principal_amount))"

section \<open>\<^verbatim>\<open>loan_manager.py\<close>: scenario analysis\<close>

record LoanScenarioAnalyzer =
  self_apartment_loan :: real
  self_apartment_rate :: real
  self_apartment_term :: real
  self_investment_loan :: real
  self_investment_rate :: real
  self_investment_term :: real

text \<open>
  A scenario is a Python dict from key names to numbers, read with
  \<^verbatim>\<open>scenario.get(key, default)\<close>.
\<close>

type_synonym scenario = "string \<rightharpoonup> real"

definition dict_get :: "scenario \<Rightarrow> string \<Rightarrow> real \<Rightarrow> real" where
  "dict_get d k dflt = (case d k of None \<Rightarrow> dflt | Some v \<Rightarrow> v)"

datatype scenario_label =
    Label_Current        \<comment> \<open>the string \<^verbatim>\<open>'Current'\<close>\<close>
  | Label_Scenario nat   \<comment> \<open>the string \<^verbatim>\<open>f'Scenario {i}'\<close>\<close>

datatype breakeven =
    Months int   \<comment> \<open>the int that \<^verbatim>\<open>math.ceil\<close> returns\<close>
  | NA           \<comment> \<open>the string \<^verbatim>\<open>'N/A'\<close>\<close>

record result_row =
  Scenario :: scenario_label
  Apt_Rate :: real
  Inv_Rate :: real
  Apt_Payment :: real
  Inv_Payment :: real
  Total_Payment :: real
  Monthly_Savings :: real
  Annual_Savings :: real
  Refi_Costs :: real
  Breakeven_Months :: breakeven

definition scenario_row ::
  "LoanScenarioAnalyzer \<Rightarrow> real \<Rightarrow> nat \<Rightarrow> scenario \<Rightarrow> py_error + result_row" where
  \<comment> \<open>one pass of \<^verbatim>\<open>for i, scenario in enumerate(scenarios, 1)\<close>\<close>
  "scenario_row self current_total i scenario =
     (let apt_rate = dict_get scenario ''apt_rate'' (self_apartment_rate self);
          inv_rate = dict_get scenario ''inv_rate'' (self_investment_rate self);
          apt_term = dict_get scenario ''apt_term'' (self_apartment_term self);
          inv_term = dict_get scenario ''inv_term'' (self_investment_term self);
          refi_costs = dict_get scenario ''refi_costs'' 5000
      in case LoanScenarioAnalyzer_calculate_monthly_payment
                (self_apartment_loan self) apt_rate apt_term of
           Inl e \<Rightarrow> Inl e
         | Inr new_apt_payment \<Rightarrow>
        (case LoanScenarioAnalyzer_calculate_monthly_payment
                (self_investment_loan self) inv_rate inv_term of
           Inl e \<Rightarrow> Inl e
         | Inr new_inv_payment \<Rightarrow>
             (let new_total = new_apt_payment + new_inv_payment;
                  monthly_savings = current_total - new_total;
                  annual_savings = monthly_savings * 12;
                  breakeven = (if monthly_savings > 0
                               then Months \<lceil>refi_costs / monthly_savings\<rceil> else NA)
              in Inr \<lparr> Scenario = Label_Scenario i,
                       Apt_Rate = apt_rate,
                       Inv_Rate = inv_rate,
                       Apt_Payment = new_apt_payment,
                       Inv_Payment = new_inv_payment,
                       Total_Payment = new_total,
                       Monthly_Savings = monthly_savings,
                       Annual_Savings = annual_savings,
                       Refi_Costs = refi_costs,
                       Breakeven_Months = breakeven \<rparr>)))"

fun scenario_loop ::
  "LoanScenarioAnalyzer \<Rightarrow> real \<Rightarrow> nat \<Rightarrow> scenario list \<Rightarrow> py_error + result_row list" where
  "scenario_loop self current_total i [] = Inr []"
| "scenario_loop self current_total i (scenario # scenarios) =
     (case scenario_row self current_total i scenario of
        Inl e \<Rightarrow> Inl e
      | Inr row \<Rightarrow>
          (case scenario_loop self current_total (i + 1) scenarios of
             Inl e \<Rightarrow> Inl e
           | Inr rows \<Rightarrow> Inr (row # rows)))"

definition scenario_analysis ::
  "LoanScenarioAnalyzer \<Rightarrow> scenario list \<Rightarrow> py_error + result_row list" where
  "scenario_analysis self scenarios =
     (case LoanScenarioAnalyzer_calculate_monthly_payment
             (self_apartment_loan self) (self_apartment_rate self) (self_apartment_term self) of
        Inl e \<Rightarrow> Inl e
      | Inr current_apt_payment \<Rightarrow>
     (case LoanScenarioAnalyzer_calculate_monthly_payment
             (self_investment_loan self) (self_investment_rate self) (self_investment_term self) of
        Inl e \<Rightarrow> Inl e
      | Inr current_inv_payment \<Rightarrow>
          (let current_total = current_apt_payment + current_inv_payment;
               first_row = \<lparr> Scenario = Label_Current,
                             Apt_Rate = self_apartment_rate self,
                             Inv_Rate = self_investment_rate self,
                             Apt_Payment = current_apt_payment,
                             Inv_Payment = current_inv_payment,
                             Total_Payment = current_total,
                             Monthly_Savings = 0,
                             Annual_Savings = 0,
                             Refi_Costs = 0,
                             Breakeven_Months = NA \<rparr>
           in case scenario_loop self current_total 1 scenarios of
                Inl e \<Rightarrow> Inl e
              | Inr rows \<Rightarrow> Inr (first_row # rows))))"

section \<open>\<^verbatim>\<open>loan_app.py\<close>: class LoanAnalyzer\<close>

record LoanAnalyzer =
  self_principal :: real
  self_annual_rate :: real
  self_years :: real
  self_monthly_rate :: real
  self_num_payments :: int

definition LoanAnalyzer_init :: "real \<Rightarrow> real \<Rightarrow> real \<Rightarrow> LoanAnalyzer" where
  "LoanAnalyzer_init principal_amount annual_rate years =
     \<lparr> self_principal = principal_amount,
       self_annual_rate = annual_rate,
       self_years = years,
       self_monthly_rate = annual_rate / 100 / 12,
       self_num_payments = py_int (years * 12) \<rparr>"

definition LoanAnalyzer_calculate_monthly_payment :: "LoanAnalyzer \<Rightarrow> py_error + real" where
  "LoanAnalyzer_calculate_monthly_payment self =
     (if self_annual_rate self = 0
      then py_truediv (self_principal self) (of_int (self_num_payments self))
      else case py_pow_int (1 + self_monthly_rate self) (self_num_payments self) of
             Inl e \<Rightarrow> Inl e
           | Inr pw \<Rightarrow>
               py_truediv (self_principal self * (self_monthly_rate self * pw)) (pw - 1))"

text \<open>
  Python's \<^verbatim>\<open>datetime\<close>, with the part of the standard library the schedule uses:
  \<^verbatim>\<open>replace(year=, month=)\<close> raises \<^verbatim>\<open>ValueError\<close> when the new date does not exist,
  and \<^verbatim>\<open>strftime('%Y-%m-%d')\<close> prints the year, the month and the day, here kept as a
  triple. \<open>time_of_day\<close> stands for the hour, minute, second and microsecond, which
  neither of the two reads.
\<close>

record datetime =
  year :: int
  month :: int
  day :: int
  time_of_day :: nat

definition is_leap :: "int \<Rightarrow> bool" where
  "is_leap y = (y mod 4 = 0 \<and> (y mod 100 \<noteq> 0 \<or> y mod 400 = 0))"

definition days_in_month :: "int \<Rightarrow> int \<Rightarrow> int" where
  "days_in_month y m =
     (if m = 2 then (if is_leap y then 29 else 28)
      else if m = 4 \<or> m = 6 \<or> m = 9 \<or> m = 11 then 30
      else 31)"

definition datetime_replace :: "datetime \<Rightarrow> int \<Rightarrow> int \<Rightarrow> py_error + datetime" where
  "datetime_replace d y m =
     (if 1 \<le> y \<and> y \<le> 9999 \<and> 1 \<le> m \<and> m \<le> 12 \<and> 1 \<le> day d \<and> day d \<le> days_in_month y m
      then Inr (d\<lparr>year := y, month := m\<rparr>)
      else Inl ValueError)"

definition strftime_Ymd :: "datetime \<Rightarrow> int \<times> int \<times> int" where
  "strftime_Ymd d = (year d, month d, day d)"

definition next_month :: "datetime \<Rightarrow> py_error + datetime" where
  \<comment> \<open>the statement under \<^verbatim>\<open># Move to next month\<close>\<close>
  "next_month current_date =
     (if month current_date = 12
      then datetime_replace current_date (year current_date + 1) 1
      else datetime_replace current_date (year current_date) (month current_date + 1))"

record app_row =
  Payment_Number :: nat
  Date :: "int \<times> int \<times> int"
  Beginning_Balance2 :: real  \<comment> \<open>\<^verbatim>\<open>'Beginning_Balance'\<close>\<close>
  Monthly_Payment :: real
  Principal_Payment :: real
  Interest_Payment :: real
  Ending_Balance2 :: real     \<comment> \<open>\<^verbatim>\<open>'Ending_Balance'\<close>\<close>
  Cumulative_Interest :: real

text \<open>
  The body of \<^verbatim>\<open>for payment_num in range(1, self.num_payments + 1)\<close>. The date moves
  to the next month after the row is appended and before the test
  \<^verbatim>\<open>if balance <= 0: break\<close>, so a \<^verbatim>\<open>ValueError\<close> there loses the rows built so far.
\<close>

fun app_schedule_loop ::
  "real \<Rightarrow> real \<Rightarrow> nat list \<Rightarrow> real \<Rightarrow> real \<Rightarrow> datetime \<Rightarrow> py_error + app_row list" where
  "app_schedule_loop monthly_rate monthly_payment [] balance cumulative_interest current_date =
     Inr []"
| "app_schedule_loop monthly_rate monthly_payment (payment_num # payment_nums)
       balance cumulative_interest current_date =
     (let interest_payment = balance * monthly_rate;
          principal_payment = monthly_payment - interest_payment;
          balance' = balance - principal_payment;
          cumulative_interest' = cumulative_interest + interest_payment;
          row = \<lparr> Payment_Number = payment_num,
                  Date = strftime_Ymd current_date,
                  Beginning_Balance2 = balance' + principal_payment,
                  Monthly_Payment = monthly_payment,
                  Principal_Payment = principal_payment,
                  Interest_Payment = interest_payment,
                  Ending_Balance2 = max 0 balance',
                  Cumulative_Interest = cumulative_interest' \<rparr>
      in case next_month current_date of
           Inl e \<Rightarrow> Inl e
         | Inr current_date' \<Rightarrow>
             if balance' \<le> 0 then Inr [row]
             else (case app_schedule_loop monthly_rate monthly_payment payment_nums
                          balance' cumulative_interest' current_date' of
                     Inl e \<Rightarrow> Inl e
                   | Inr rows \<Rightarrow> Inr (row # rows)))"

definition LoanAnalyzer_create_amortization_schedule ::
  "LoanAnalyzer \<Rightarrow> datetime option \<Rightarrow> datetime \<Rightarrow> py_error + app_row list" where
  \<comment> \<open>\<open>now\<close> is what \<^verbatim>\<open>datetime.now()\<close> returns at the call: the clock, made an argument\<close>
  "LoanAnalyzer_create_amortization_schedule self start_date now =
     (let start_date' = (case start_date of None \<Rightarrow> now | Some d \<Rightarrow> d) in
      case LoanAnalyzer_calculate_monthly_payment self of
        Inl e \<Rightarrow> Inl e
      | Inr monthly_payment \<Rightarrow>
          app_schedule_loop (self_monthly_rate self) monthly_payment
            (py_range 1 (self_num_payments self + 1)) (self_principal self) 0 start_date')"

section \<open>\<^verbatim>\<open>loan_app.py\<close> on IEEE doubles\<close>

text \<open>
  \<^verbatim>\<open>LoanAnalyzer\<close> once more with every operation rounded. \<^verbatim>\<open>self.num_payments\<close> is an
  \<^verbatim>\<open>int\<close>; where it meets a \<^verbatim>\<open>float\<close>, in the division and as the exponent, Python
  converts it to a double first.
\<close>

definition LoanAnalyzer_init_double :: "real \<Rightarrow> real \<Rightarrow> real \<Rightarrow> LoanAnalyzer" where
  "LoanAnalyzer_init_double principal_amount annual_rate years =
     \<lparr> self_principal = principal_amount,
       self_annual_rate = annual_rate,
       self_years = years,
       self_monthly_rate = binary64 (binary64 (annual_rate / 100) / 12),
       self_num_payments = py_int (binary64 (years * 12)) \<rparr>"

definition LoanAnalyzer_calculate_monthly_payment_double ::
  "LoanAnalyzer \<Rightarrow> py_error + real" where
  "LoanAnalyzer_calculate_monthly_payment_double self =
     (if self_annual_rate self = 0
      then py_truediv_double (self_principal self) (of_int (self_num_payments self))
      else case pow64 (binary64 (1 + self_monthly_rate self))
                  (of_int (self_num_payments self)) of
             Inl e \<Rightarrow> Inl e
           | Inr pw \<Rightarrow>
               py_truediv_double
                 (binary64 (self_principal self * binary64 (self_monthly_rate self * pw)))
                 (binary64 (pw - 1)))"

fun app_schedule_loop_double ::
  "real \<Rightarrow> real \<Rightarrow> nat list \<Rightarrow> real \<Rightarrow> real \<Rightarrow> datetime \<Rightarrow> py_error + app_row list" where
  "app_schedule_loop_double monthly_rate monthly_payment [] balance cumulative_interest
       current_date =
     Inr []"
| "app_schedule_loop_double monthly_rate monthly_payment (payment_num # payment_nums)
       balance cumulative_interest current_date =
     (let interest_payment = binary64 (balance * monthly_rate);
          principal_payment = binary64 (monthly_payment - interest_payment);
          balance' = binary64 (balance - principal_payment);
          cumulative_interest' = binary64 (cumulative_interest + interest_payment);
          row = \<lparr> Payment_Number = payment_num,
                  Date = strftime_Ymd current_date,
                  Beginning_Balance2 = binary64 (balance' + principal_payment),
                  Monthly_Payment = monthly_payment,
                  Principal_Payment = principal_payment,
                  Interest_Payment = interest_payment,
                  Ending_Balance2 = max 0 balance',
                  Cumulative_Interest = cumulative_interest' \<rparr>
      in case next_month current_date of
           Inl e \<Rightarrow> Inl e
         | Inr current_date' \<Rightarrow>
             if balance' \<le> 0 then Inr [row]
             else (case app_schedule_loop_double monthly_rate monthly_payment payment_nums
                          balance' cumulative_interest' current_date' of
                     Inl e \<Rightarrow> Inl e
                   | Inr rows \<Rightarrow> Inr (row # rows)))"

definition LoanAnalyzer_create_amortization_schedule_double ::
  "LoanAnalyzer \<Rightarrow> datetime option \<Rightarrow> datetime \<Rightarrow> py_error + app_row list" where
  "LoanAnalyzer_create_amortization_schedule_double self start_date now =
     (let start_date' = (case start_date of None \<Rightarrow> now | Some d \<Rightarrow> d) in
      case LoanAnalyzer_calculate_monthly_payment_double self of
        Inl e \<Rightarrow> Inl e
      | Inr monthly_payment \<Rightarrow>
          app_schedule_loop_double (self_monthly_rate self) monthly_payment
            (py_range 1 (self_num_payments self + 1)) (self_principal self) 0 start_date')"

section \<open>\<^verbatim>\<open>loan_app.py\<close>: the break-even figures of \<^verbatim>\<open>main\<close>\<close>

text \<open>
  The break-even figures of \<^verbatim>\<open>main\<close> in \<^verbatim>\<open>loan_app.py\<close>, as the numbers handed to the
  display (\<open>None\<close> where no break-even figure is shown): one loan, and both loans
  combined.
\<close>

definition main_break_even :: "real \<Rightarrow> real \<Rightarrow> real option" where
  "main_break_even refi_costs savings =
     (if savings > 0 then Some (refi_costs / savings) else None)"

definition main_combined_break_even :: "real \<Rightarrow> real \<Rightarrow> real option" where
  "main_combined_break_even total_refi_costs total_savings =
     (if total_savings > 0 \<and> total_refi_costs > 0
      then Some (total_refi_costs / total_savings) else None)"

section \<open>The specification's formula and auxiliary notions\<close>

text \<open>
  The payment of the specification (section 4.1), for the inputs it admits
  (\<open>principal > 0\<close>, \<open>annual_rate \<ge> 0\<close>, \<open>term_years > 0\<close>): written from the
  specification's words, to be compared with the two implementations.
\<close>

definition computeMonthlyPayment_spec :: "real \<Rightarrow> real \<Rightarrow> real \<Rightarrow> real" where
  "computeMonthlyPayment_spec principal_amount annual_rate term_years =
     (if annual_rate = 0 then principal_amount / (term_years * 12)
      else
        let r = annual_rate / 100 / 12;
            n = nat (round (term_years * 12))
        in principal_amount * r * (1 + r) ^ n / ((1 + r) ^ n - 1))"

text \<open>
  The running balance after \<open>k\<close> payments when no clamping and no early exit
  intervene: the recurrence \<^verbatim>\<open>balance -= monthly_payment - balance * monthly_rate\<close>
  of both loops, iterated.
\<close>

fun balance_after :: "real \<Rightarrow> real \<Rightarrow> nat \<Rightarrow> real \<Rightarrow> real" where
  "balance_after monthly_rate monthly_payment 0 balance = balance"
| "balance_after monthly_rate monthly_payment (Suc k) balance =
     balance_after monthly_rate monthly_payment k
       (balance - (monthly_payment - balance * monthly_rate))"

text \<open>
  A starting date from which \<open>n\<close> successive moves to the next month all exist: the
  day is in every month, and the year stays within \<^verbatim>\<open>datetime.MAXYEAR\<close>.
\<close>

definition date_supports :: "datetime \<Rightarrow> int \<Rightarrow> bool" where
  "date_supports d n \<longleftrightarrow>
     1 \<le> day d \<and> day d \<le> 28 \<and> 1 \<le> month d \<and> month d \<le> 12 \<and> 1 \<le> year d \<and>
     year d * 12 + month d + n \<le> 9999 * 12 + 12"

text \<open>
  An analyzer and two scenarios for the examples: two loans of 1200 at no interest over
  one year, 100 a month each; the apartment's term doubled at costs of 70, and halved at
  the default costs.
\<close>

definition example_analyzer :: LoanScenarioAnalyzer where
  "example_analyzer =
     \<lparr> self_apartment_loan = 1200, self_apartment_rate = 0, self_apartment_term = 1,
       self_investment_loan = 1200, self_investment_rate = 0, self_investment_term = 1 \<rparr>"

definition longer_term :: scenario where
  \<comment> \<open>\<^verbatim>\<open>{'apt_term': 2, 'refi_costs': 70}\<close>\<close>
  "longer_term = [''apt_term'' \<mapsto> 2, ''refi_costs'' \<mapsto> 70]"

definition shorter_term :: scenario where
  \<comment> \<open>\<^verbatim>\<open>{'apt_term': 0.5}\<close>\<close>
  "shorter_term = [''apt_term'' \<mapsto> 1 / 2]"

section \<open>The loop of \<^verbatim>\<open>LoanScenarioAnalyzer.create_amortization_schedule\<close>\<close>

lemma py_int_nonneg: "0 \<le> x \<Longrightarrow> py_int x = \<lfloor>x\<rfloor>"
  by (simp add: py_int_def)

lemma schedule_loop_length: "length (schedule_loop mr mp ms b) \<le> length ms"
  by (induction ms arbitrary: b) (auto simp: Let_def)

lemma schedule_loop_nonempty: "ms \<noteq> [] \<Longrightarrow> schedule_loop mr mp ms b \<noteq> []"
  by (cases ms) (simp_all add: Let_def)

lemma schedule_loop_hd:
  "schedule_loop mr mp ms b \<noteq> [] \<Longrightarrow> Beginning_Balance (hd (schedule_loop mr mp ms b)) = b"
  by (cases ms) (simp_all add: Let_def)

lemma schedule_loop_chain:
  "Suc i < length (schedule_loop mr mp ms b) \<Longrightarrow>
   Beginning_Balance (schedule_loop mr mp ms b ! Suc i) = Ending_Balance (schedule_loop mr mp ms b ! i)"
proof (induction ms arbitrary: b i)
  case Nil
  then show ?case by simp
next
  case (Cons m ms)
  define b' where "b' = b - (mp - b * mr)"
  define rest where "rest = schedule_loop mr mp ms b'"
  from Cons.prems have pos: "0 < b'"
    by (auto simp: Let_def b'_def split: if_splits)
  have len: "Suc i < Suc (length rest)"
    using Cons.prems pos by (simp add: Let_def b'_def rest_def)
  show ?case
  proof (cases i)
    case 0
    with len have ne: "rest \<noteq> []" by auto
    then have "Beginning_Balance (hd rest) = b'"
      unfolding rest_def by (rule schedule_loop_hd)
    with ne 0 pos show ?thesis
      by (simp add: Let_def b'_def rest_def hd_conv_nth)
  next
    case (Suc j)
    with len have "Suc j < length rest" by simp
    then have "Beginning_Balance (rest ! Suc j) = Ending_Balance (rest ! j)"
      unfolding rest_def by (rule Cons.IH)
    with Suc pos show ?thesis
      by (simp add: Let_def b'_def rest_def)
  qed
qed


lemma schedule_loop_zero_rate:
  "row \<in> set (schedule_loop 0 mp ms b) \<Longrightarrow>
   Interest row = 0 \<and> Principal row = mp \<and> Payment_Amount row = mp"
  by (induction ms arbitrary: b) (auto simp: Let_def split: if_splits)

lemma schedule_loop_last:
  "ms \<noteq> [] \<Longrightarrow> balance_after mr mp (length ms) b \<le> 0 \<Longrightarrow>
   Ending_Balance (last (schedule_loop mr mp ms b)) = 0"
proof (induction ms arbitrary: b)
  case Nil
  then show ?case by simp
next
  case (Cons m ms)
  define b' where "b' = b - (mp - b * mr)"
  show ?case
  proof (cases "b' \<le> 0")
    case True
    then show ?thesis by (simp add: Let_def b'_def)
  next
    case False
    show ?thesis
    proof (cases "ms = []")
      case True
      with Cons.prems False show ?thesis by (simp add: b'_def)
    next
      case ne: False
      from Cons.prems have "balance_after mr mp (length ms) b' \<le> 0"
        by (simp add: b'_def)
      with ne have "Ending_Balance (last (schedule_loop mr mp ms b')) = 0"
        by (rule Cons.IH)
      with False ne show ?thesis
        by (simp add: Let_def b'_def schedule_loop_nonempty)
    qed
  qed
qed

section \<open>The balance recurrence in closed form\<close>

lemma balance_after_closed:
  "mr \<noteq> 0 \<Longrightarrow> balance_after mr mp k b = b * (1 + mr) ^ k - mp * ((1 + mr) ^ k - 1) / mr"
proof (induction k arbitrary: b)
  case 0
  then show ?case by simp
next
  case (Suc k)
  have "balance_after mr mp (Suc k) b = balance_after mr mp k (b - (mp - b * mr))"
    by simp
  also have "\<dots> = (b - (mp - b * mr)) * (1 + mr) ^ k - mp * ((1 + mr) ^ k - 1) / mr"
    using Suc.prems by (rule Suc.IH)
  also have "\<dots> = b * (1 + mr) ^ Suc k - mp * ((1 + mr) ^ Suc k - 1) / mr"
    using Suc.prems by (simp add: field_simps)
  finally show ?case .
qed

lemma balance_after_zero_rate: "balance_after 0 mp k b = b - real k * mp"
  by (induction k arbitrary: b) (simp_all add: algebra_simps)

lemma balance_after_annuity:
  assumes "mr \<noteq> 0" "(1 + mr) ^ n \<noteq> 1"
  shows "balance_after mr (P * (mr * (1 + mr) ^ n) / ((1 + mr) ^ n - 1)) n P = 0"
  using assms by (simp add: balance_after_closed field_simps)

lemma balance_after_straight_line:
  "n \<noteq> 0 \<Longrightarrow> balance_after 0 (P / real n) n P = 0"
  by (simp add: balance_after_zero_rate)


section \<open>The loop of \<^verbatim>\<open>LoanAnalyzer.create_amortization_schedule\<close>\<close>

lemma app_schedule_loop_Cons_Inr:
  assumes "app_schedule_loop mr mp (p # pn) b c d = Inr rows"
  shows "\<exists>r rest d'.
           rows = r # rest \<and> next_month d = Inr d' \<and>
           Beginning_Balance2 r = b \<and> Monthly_Payment r = mp \<and>
           Principal_Payment r = mp - b * mr \<and> Interest_Payment r = b * mr \<and>
           Ending_Balance2 r = max 0 (b - (mp - b * mr)) \<and>
           (if b - (mp - b * mr) \<le> 0 then rest = []
            else app_schedule_loop mr mp pn (b - (mp - b * mr)) (c + b * mr) d' = Inr rest)"
  using assms by (auto simp: Let_def split: sum.splits if_splits)

lemma app_schedule_loop_length:
  "app_schedule_loop mr mp pn b c d = Inr rows \<Longrightarrow> length rows \<le> length pn"
proof (induction pn arbitrary: b c d rows)
  case Nil
  then show ?case by simp
next
  case (Cons p pn)
  from Cons.prems obtain d' rest where
    rows: "length rows = Suc (length rest)" and
    rest: "if b - (mp - b * mr) \<le> 0 then rest = []
           else app_schedule_loop mr mp pn (b - (mp - b * mr)) (c + b * mr) d' = Inr rest"
    using app_schedule_loop_Cons_Inr [OF Cons.prems] by auto
  have "length rest \<le> length pn"
    using rest Cons.IH by (auto split: if_splits)
  with rows show ?case by simp
qed

lemma app_schedule_loop_hd:
  assumes "app_schedule_loop mr mp pn b c d = Inr rows" "rows \<noteq> []"
  shows "Beginning_Balance2 (hd rows) = b"
proof (cases pn)
  case Nil
  with assms show ?thesis by simp
next
  case (Cons p pn')
  with assms(1) have "app_schedule_loop mr mp (p # pn') b c d = Inr rows" by simp
  from app_schedule_loop_Cons_Inr [OF this] show ?thesis by auto
qed

lemma app_schedule_loop_chain:
  "app_schedule_loop mr mp pn b c d = Inr rows \<Longrightarrow> Suc i < length rows \<Longrightarrow>
   Beginning_Balance2 (rows ! Suc i) = Ending_Balance2 (rows ! i)"
proof (induction pn arbitrary: b c d rows i)
  case Nil
  then show ?case by simp
next
  case (Cons p pn)
  define b' where "b' = b - (mp - b * mr)"
  from Cons.prems(1) obtain d' r rest where
    rows: "rows = r # rest" and r: "Ending_Balance2 r = max 0 b'" and
    rest: "if b' \<le> 0 then rest = []
           else app_schedule_loop mr mp pn b' (c + b * mr) d' = Inr rest"
    using app_schedule_loop_Cons_Inr [OF Cons.prems(1)] unfolding b'_def by blast
  from Cons.prems(2) rows have ne: "rest \<noteq> []" by auto
  with rest have pos: "0 < b'" and loop: "app_schedule_loop mr mp pn b' (c + b * mr) d' = Inr rest"
    by (auto split: if_splits)
  show ?case
  proof (cases i)
    case 0
    from loop ne have "Beginning_Balance2 (hd rest) = b'"
      by (rule app_schedule_loop_hd)
    with 0 rows r pos ne show ?thesis by (simp add: hd_conv_nth)
  next
    case (Suc j)
    with Cons.prems(2) rows have "Suc j < length rest" by simp
    with loop have "Beginning_Balance2 (rest ! Suc j) = Ending_Balance2 (rest ! j)"
      by (rule Cons.IH)
    with Suc rows show ?thesis by simp
  qed
qed


lemma app_schedule_loop_zero_rate:
  "app_schedule_loop 0 mp pn b c d = Inr rows \<Longrightarrow> row \<in> set rows \<Longrightarrow>
   Interest_Payment row = 0 \<and> Principal_Payment row = mp \<and> Monthly_Payment row = mp"
proof (induction pn arbitrary: b c d rows)
  case Nil
  then show ?case by simp
next
  case (Cons p pn)
  from Cons.prems(1) obtain d' r rest where
    rows: "rows = r # rest" and
    r: "Interest_Payment r = 0 \<and> Principal_Payment r = mp \<and> Monthly_Payment r = mp" and
    rest: "if b - (mp - b * 0) \<le> 0 then rest = []
           else app_schedule_loop 0 mp pn (b - (mp - b * 0)) (c + b * 0) d' = Inr rest"
    using app_schedule_loop_Cons_Inr [OF Cons.prems(1)] by auto
  show ?case
  proof (cases "row = r")
    case True
    with r show ?thesis by simp
  next
    case False
    with Cons.prems(2) rows have mem: "row \<in> set rest" by simp
    with rest have "app_schedule_loop 0 mp pn (b - (mp - b * 0)) (c + b * 0) d' = Inr rest"
      by (auto split: if_splits)
    then show ?thesis using mem by (rule Cons.IH)
  qed
qed

lemma app_schedule_loop_last:
  "app_schedule_loop mr mp pn b c d = Inr rows \<Longrightarrow> pn \<noteq> [] \<Longrightarrow>
   balance_after mr mp (length pn) b \<le> 0 \<Longrightarrow>
   rows \<noteq> [] \<and> Ending_Balance2 (last rows) = 0"
proof (induction pn arbitrary: b c d rows)
  case Nil
  then show ?case by simp
next
  case (Cons p pn)
  define b' where "b' = b - (mp - b * mr)"
  from Cons.prems(1) obtain d' r rest where
    rows: "rows = r # rest" and r: "Ending_Balance2 r = max 0 b'" and
    rest: "if b' \<le> 0 then rest = []
           else app_schedule_loop mr mp pn b' (c + b * mr) d' = Inr rest"
    using app_schedule_loop_Cons_Inr [OF Cons.prems(1)] unfolding b'_def by blast
  show ?case
  proof (cases "b' \<le> 0")
    case True
    with rows r rest show ?thesis by simp
  next
    case False
    with rest have loop: "app_schedule_loop mr mp pn b' (c + b * mr) d' = Inr rest" by simp
    show ?thesis
    proof (cases "pn = []")
      case True
      with Cons.prems(3) False show ?thesis by (simp add: b'_def)
    next
      case ne: False
      from Cons.prems(3) have "balance_after mr mp (length pn) b' \<le> 0"
        by (simp add: b'_def)
      with loop ne have "rest \<noteq> [] \<and> Ending_Balance2 (last rest) = 0"
        by (rule Cons.IH)
      with rows show ?thesis by simp
    qed
  qed
qed

lemma app_schedule_loop_date:
  "strftime_Ymd d1 = strftime_Ymd d2 \<Longrightarrow>
   app_schedule_loop mr mp pn b c d1 = app_schedule_loop mr mp pn b c d2"
proof (induction pn arbitrary: b c d1 d2)
  case Nil
  then show ?case by simp
next
  case (Cons p pn)
  from Cons.prems have ymd: "year d1 = year d2" "month d1 = month d2" "day d1 = day d2"
    by (simp_all add: strftime_Ymd_def)
  show ?case
  proof (cases "next_month d1")
    case (Inl e)
    with ymd have "next_month d2 = Inl e"
      by (auto simp: next_month_def datetime_replace_def split: if_splits)
    with Inl show ?thesis by (simp add: Let_def)
  next
    case (Inr d1')
    with ymd obtain d2' where d2': "next_month d2 = Inr d2'" and
      same: "strftime_Ymd d1' = strftime_Ymd d2'"
      by (auto simp: next_month_def datetime_replace_def strftime_Ymd_def split: if_splits)
    from same have "app_schedule_loop mr mp pn (b - (mp - b * mr)) (c + b * mr) d1' =
                    app_schedule_loop mr mp pn (b - (mp - b * mr)) (c + b * mr) d2'"
      by (rule Cons.IH)
    with Inr d2' Cons.prems show ?thesis by (simp add: Let_def)
  qed
qed

lemma next_month_supports:
  assumes "date_supports d (1 + n)" "0 \<le> n"
  obtains d' where "next_month d = Inr d'" "date_supports d' n"
proof (cases "month d = 12")
  case True
  with assms have "next_month d = Inr (d\<lparr>year := year d + 1, month := 1\<rparr>)"
    by (simp add: next_month_def datetime_replace_def date_supports_def days_in_month_def)
  moreover from True assms have "date_supports (d\<lparr>year := year d + 1, month := 1\<rparr>) n"
    by (simp add: date_supports_def)
  ultimately show ?thesis by (rule that)
next
  case False
  with assms have "next_month d = Inr (d\<lparr>year := year d, month := month d + 1\<rparr>)"
    by (simp add: next_month_def datetime_replace_def date_supports_def days_in_month_def)
  moreover from False assms have "date_supports (d\<lparr>year := year d, month := month d + 1\<rparr>) n"
    by (simp add: date_supports_def)
  ultimately show ?thesis by (rule that)
qed

lemma app_schedule_loop_returns:
  "date_supports d (int (length pn)) \<Longrightarrow> \<exists>rows. app_schedule_loop mr mp pn b c d = Inr rows"
proof (induction pn arbitrary: b c d)
  case Nil
  then show ?case by simp
next
  case (Cons p pn)
  then have "date_supports d (1 + int (length pn))" by simp
  then obtain d' where d': "next_month d = Inr d'" and sup: "date_supports d' (int (length pn))"
    by (rule next_month_supports) simp
  from sup obtain rest where
    "app_schedule_loop mr mp pn (b - (mp - b * mr)) (c + b * mr) d' = Inr rest"
    using Cons.IH by blast
  with d' show ?case by (simp add: Let_def)
qed

section \<open>The monthly payment\<close>

lemma whole_months:
  assumes "0 < y" "y * 12 = of_int \<lfloor>y * 12\<rfloor>"
  obtains n :: nat where "0 < n" "y * 12 = real n" "py_int (y * 12) = int n" "round (y * 12) = int n"
proof -
  define n where "n = nat \<lfloor>y * 12\<rfloor>"
  from assms(1) have nonneg: "0 \<le> \<lfloor>y * 12\<rfloor>" by simp
  then have n: "real n = of_int \<lfloor>y * 12\<rfloor>" by (simp add: n_def)
  with assms(2) have eq: "y * 12 = real n" by simp
  with assms(1) have "0 < n" by (cases n) simp_all
  moreover have "py_int (y * 12) = int n" using eq by (simp add: py_int_def)
  moreover have "round (y * 12) = int n" using eq by simp
  ultimately show ?thesis using eq that by blast
qed

lemma power_ne_one:
  fixes b :: real
  assumes "0 < b" "b \<noteq> 1" "0 < k"
  shows "b ^ k \<noteq> 1"
  using assms power_eq_iff_eq_base [of k b 1] by simp

lemma LSA_payment_zero_rate:
  "y \<noteq> 0 \<Longrightarrow> LoanScenarioAnalyzer_calculate_monthly_payment P 0 y = Inr (P / (y * 12))"
  by (simp add: LoanScenarioAnalyzer_calculate_monthly_payment_def py_truediv_def)

lemma LSA_payment_nonzero_rate:
  assumes "- 1200 < rate" "rate \<noteq> 0" "y \<noteq> 0"
  shows "LoanScenarioAnalyzer_calculate_monthly_payment P rate y =
         Inr (P * (rate / 100 / 12 * (1 + rate / 100 / 12) powr (y * 12)) /
              ((1 + rate / 100 / 12) powr (y * 12) - 1))"
proof -
  from assms have base: "0 < 1 + rate / 100 / 12" "1 + rate / 100 / 12 \<noteq> 1" by simp_all
  with assms(3) have "(1 + rate / 100 / 12) powr (y * 12) \<noteq> 1" by simp
  with base assms(2) show ?thesis
    by (simp add: LoanScenarioAnalyzer_calculate_monthly_payment_def py_pow_def py_truediv_def
        Let_def)
qed

lemma LA_payment_zero_rate:
  "py_int (y * 12) \<noteq> 0 \<Longrightarrow>
   LoanAnalyzer_calculate_monthly_payment (LoanAnalyzer_init P 0 y) =
   Inr (P / of_int (py_int (y * 12)))"
  by (simp add: LoanAnalyzer_calculate_monthly_payment_def LoanAnalyzer_init_def py_truediv_def)

lemma LA_payment_nonzero_rate:
  assumes "- 1200 < rate" "rate \<noteq> 0" "1 \<le> py_int (y * 12)"
  shows "LoanAnalyzer_calculate_monthly_payment (LoanAnalyzer_init P rate y) =
         Inr (P * (rate / 100 / 12 * (1 + rate / 100 / 12) ^ nat (py_int (y * 12))) /
              ((1 + rate / 100 / 12) ^ nat (py_int (y * 12)) - 1))"
proof -
  from assms have base: "0 < 1 + rate / 100 / 12" "1 + rate / 100 / 12 \<noteq> 1" by simp_all
  moreover from assms(3) have "0 < nat (py_int (y * 12))" by simp
  ultimately have "(1 + rate / 100 / 12) ^ nat (py_int (y * 12)) \<noteq> 1"
    by (rule power_ne_one)
  with assms show ?thesis
    by (simp add: LoanAnalyzer_calculate_monthly_payment_def LoanAnalyzer_init_def
        py_pow_int_def py_truediv_def)
qed

lemma LA_payment_negative_periods:
  assumes "- 1200 < rate" "rate \<noteq> 0" "py_int (y * 12) \<le> - 1"
  shows "LoanAnalyzer_calculate_monthly_payment (LoanAnalyzer_init P rate y) =
         Inr (P * (rate / 100 / 12 * (1 / (1 + rate / 100 / 12) ^ nat (- py_int (y * 12)))) /
              (1 / (1 + rate / 100 / 12) ^ nat (- py_int (y * 12)) - 1))"
proof -
  from assms have base: "0 < 1 + rate / 100 / 12" "1 + rate / 100 / 12 \<noteq> 1" by simp_all
  moreover from assms(3) have "0 < nat (- py_int (y * 12))" by simp
  ultimately have "(1 + rate / 100 / 12) ^ nat (- py_int (y * 12)) \<noteq> 1"
    by (rule power_ne_one)
  with assms base show ?thesis
    by (simp add: LoanAnalyzer_calculate_monthly_payment_def LoanAnalyzer_init_def
        py_pow_int_def py_truediv_def)
qed

text \<open>
  Claim C1, as amended. For \<open>principal > 0\<close>, \<open>annual_rate > 0\<close> and
  \<open>term_years > 0\<close>, with \<open>r = annual_rate / 100 / 12\<close>:
  \<^verbatim>\<open>LoanScenarioAnalyzer.calculate_monthly_payment\<close> returns
  \<open>principal \<times> r \<times> (1+r)^e / ((1+r)^e - 1)\<close> with the unrounded exponent
  \<open>e = term_years \<times> 12\<close>; \<^verbatim>\<open>LoanAnalyzer.calculate_monthly_payment\<close> returns the same
  expression with \<open>n = int(term_years \<times> 12)\<close>, truncated, when that is at least 1; and
  when \<open>term_years \<times> 12\<close> is a whole number both return the specification's value, whose
  \<open>n\<close> is \<open>round(term_years \<times> 12)\<close>.
\<close>

theorem monthly_payment_formula:
  assumes "0 < P" "0 < rate" "0 < y"
  shows
    "LoanScenarioAnalyzer_calculate_monthly_payment P rate y =
       Inr (P * (rate / 100 / 12 * (1 + rate / 100 / 12) powr (y * 12)) /
            ((1 + rate / 100 / 12) powr (y * 12) - 1)) \<and>
     (1 \<le> py_int (y * 12) \<longrightarrow>
        LoanAnalyzer_calculate_monthly_payment (LoanAnalyzer_init P rate y) =
          Inr (P * (rate / 100 / 12 * (1 + rate / 100 / 12) ^ nat (py_int (y * 12))) /
               ((1 + rate / 100 / 12) ^ nat (py_int (y * 12)) - 1))) \<and>
     (y * 12 = of_int \<lfloor>y * 12\<rfloor> \<longrightarrow>
        LoanScenarioAnalyzer_calculate_monthly_payment P rate y =
          Inr (computeMonthlyPayment_spec P rate y) \<and>
        LoanAnalyzer_calculate_monthly_payment (LoanAnalyzer_init P rate y) =
          Inr (computeMonthlyPayment_spec P rate y))"
proof (intro conjI impI)
  from assms have rate: "- 1200 < rate" "rate \<noteq> 0" and y: "y \<noteq> 0" by simp_all
  show lsa: "LoanScenarioAnalyzer_calculate_monthly_payment P rate y =
       Inr (P * (rate / 100 / 12 * (1 + rate / 100 / 12) powr (y * 12)) /
            ((1 + rate / 100 / 12) powr (y * 12) - 1))"
    using rate y by (rule LSA_payment_nonzero_rate)
  show "LoanAnalyzer_calculate_monthly_payment (LoanAnalyzer_init P rate y) =
          Inr (P * (rate / 100 / 12 * (1 + rate / 100 / 12) ^ nat (py_int (y * 12))) /
               ((1 + rate / 100 / 12) ^ nat (py_int (y * 12)) - 1))"
    if "1 \<le> py_int (y * 12)"
    using rate that by (rule LA_payment_nonzero_rate)
  assume whole: "y * 12 = of_int \<lfloor>y * 12\<rfloor>"
  with assms(3) obtain n :: nat where n: "0 < n" "y * 12 = real n"
      "py_int (y * 12) = int n" "round (y * 12) = int n"
    by (rule whole_months)
  from assms(2) have base: "0 < 1 + rate / 100 / 12" by simp
  have spec: "computeMonthlyPayment_spec P rate y =
      P * (rate / 100 / 12 * (1 + rate / 100 / 12) ^ n) / ((1 + rate / 100 / 12) ^ n - 1)"
    using rate(2) n(4) by (simp add: computeMonthlyPayment_spec_def Let_def)
  show "LoanScenarioAnalyzer_calculate_monthly_payment P rate y =
          Inr (computeMonthlyPayment_spec P rate y)"
    using lsa base n(2) by (simp add: spec powr_realpow)
  from n have "1 \<le> py_int (y * 12)" by simp
  with rate have "LoanAnalyzer_calculate_monthly_payment (LoanAnalyzer_init P rate y) =
          Inr (P * (rate / 100 / 12 * (1 + rate / 100 / 12) ^ nat (py_int (y * 12))) /
               ((1 + rate / 100 / 12) ^ nat (py_int (y * 12)) - 1))"
    by (rule LA_payment_nonzero_rate)
  then show "LoanAnalyzer_calculate_monthly_payment (LoanAnalyzer_init P rate y) =
          Inr (computeMonthlyPayment_spec P rate y)"
    using n(3) by (simp add: spec)
qed

theorem monthly_payment_formula_witness:
  "LoanScenarioAnalyzer_calculate_monthly_payment 100 12 (1 / 4) = Inr (1030301 / 30301) \<and>
   LoanAnalyzer_calculate_monthly_payment (LoanAnalyzer_init 100 12 (1 / 4)) =
     Inr (1030301 / 30301) \<and>
   computeMonthlyPayment_spec 100 12 (1 / 4) = 1030301 / 30301"
  using monthly_payment_formula [of 100 12 "1 / 4"]
  by (simp add: py_int_def computeMonthlyPayment_spec_def power_divide round_def)

text \<open>
  Claim C1 as stated fails where \<open>term_years \<times> 12\<close> is not whole: for 100 at 12 percent
  over 5/32 of a year (1.875 months) \<^verbatim>\<open>LoanAnalyzer\<close> pays over \<open>int(1.875) = 1\<close>
  period, the specification over \<open>round(1.875) = 2\<close>.
\<close>

theorem monthly_payment_rounding_counterexample:
  "LoanAnalyzer_calculate_monthly_payment (LoanAnalyzer_init 100 12 (5 / 32)) \<noteq>
   Inr (computeMonthlyPayment_spec 100 12 (5 / 32))"
  by (simp add: LoanAnalyzer_calculate_monthly_payment_def LoanAnalyzer_init_def py_int_def
      py_pow_int_def py_truediv_def computeMonthlyPayment_spec_def round_def power_divide)

text \<open>
  Claim C10. For \<open>principal > 0\<close>, \<open>annual_rate > 0\<close> and \<open>term_years > 0\<close> with
  \<open>term_years \<times> 12\<close> a whole number, \<^verbatim>\<open>LoanScenarioAnalyzer.calculate_monthly_payment\<close>
  (exponent \<open>years \<times> 12\<close>, unrounded) and \<^verbatim>\<open>LoanAnalyzer.calculate_monthly_payment\<close>
  (exponent \<open>int(years \<times> 12)\<close>) both return a payment, and the same one.
\<close>

theorem payment_implementations_agree:
  assumes "0 < P" "0 < rate" "0 < y" "y * 12 = of_int \<lfloor>y * 12\<rfloor>"
  shows "\<exists>payment.
           LoanScenarioAnalyzer_calculate_monthly_payment P rate y = Inr payment \<and>
           LoanAnalyzer_calculate_monthly_payment (LoanAnalyzer_init P rate y) = Inr payment"
proof -
  from assms(3,4) obtain n :: nat where n: "0 < n" "y * 12 = real n" "py_int (y * 12) = int n"
    by (rule whole_months)
  from assms have rate: "- 1200 < rate" "rate \<noteq> 0" and y: "y \<noteq> 0"
    and base: "0 < 1 + rate / 100 / 12" by simp_all
  from n have "1 \<le> py_int (y * 12)" by simp
  with rate have "LoanAnalyzer_calculate_monthly_payment (LoanAnalyzer_init P rate y) =
          Inr (P * (rate / 100 / 12 * (1 + rate / 100 / 12) ^ nat (py_int (y * 12))) /
               ((1 + rate / 100 / 12) ^ nat (py_int (y * 12)) - 1))"
    by (rule LA_payment_nonzero_rate)
  moreover have "LoanScenarioAnalyzer_calculate_monthly_payment P rate y =
       Inr (P * (rate / 100 / 12 * (1 + rate / 100 / 12) powr (y * 12)) /
            ((1 + rate / 100 / 12) powr (y * 12) - 1))"
    using rate y by (rule LSA_payment_nonzero_rate)
  ultimately show ?thesis using n base by (simp add: powr_realpow)
qed

theorem payment_implementations_agree_witness:
  "\<exists>payment.
     LoanScenarioAnalyzer_calculate_monthly_payment 555000 (549 / 100) (55 / 2) = Inr payment \<and>
     LoanAnalyzer_calculate_monthly_payment (LoanAnalyzer_init 555000 (549 / 100) (55 / 2)) =
       Inr payment"
  using payment_implementations_agree [of 555000 "549 / 100" "55 / 2"]
  by simp

section \<open>Schedules: balances, positivity, length\<close>

lemma length_py_range_0: "length (py_range 0 n) = nat n"
  by (simp add: py_range_def)

lemma length_py_range_1: "length (py_range 1 (n + 1)) = nat n"
  by (simp add: py_range_def nat_diff_distrib')

lemma py_int_le_round:
  assumes "0 \<le> x"
  shows "nat (py_int x) \<le> nat (round x)"
proof -
  have "\<lfloor>x\<rfloor> \<le> \<lfloor>x + 1 / 2\<rfloor>" by (rule floor_mono) simp
  with assms show ?thesis by (simp add: py_int_def round_def)
qed

lemma LSA_create_Inr:
  assumes "LoanScenarioAnalyzer_create_amortization_schedule P rate y sm = Inr rows"
  obtains mp where
    "rows = schedule_loop (rate / 100 / 12) mp (py_range 0 (py_int (y * 12))) P"
proof (cases "LoanScenarioAnalyzer_calculate_monthly_payment P rate y")
  case (Inl e)
  with assms have "py_range 0 (py_int (y * 12)) = []" "rows = []"
    by (auto simp: LoanScenarioAnalyzer_create_amortization_schedule_def split: if_splits)
  then have "rows = schedule_loop (rate / 100 / 12) 0 (py_range 0 (py_int (y * 12))) P"
    by simp
  then show ?thesis by (rule that)
next
  case (Inr mp)
  with assms have "rows = schedule_loop (rate / 100 / 12) mp (py_range 0 (py_int (y * 12))) P"
    by (simp add: LoanScenarioAnalyzer_create_amortization_schedule_def)
  then show ?thesis by (rule that)
qed

lemma LSA_create_of_payment:
  "LoanScenarioAnalyzer_calculate_monthly_payment P rate y = Inr mp \<Longrightarrow>
   LoanScenarioAnalyzer_create_amortization_schedule P rate y sm =
   Inr (schedule_loop (rate / 100 / 12) mp (py_range 0 (py_int (y * 12))) P)"
  by (simp add: LoanScenarioAnalyzer_create_amortization_schedule_def)

lemma LSA_create_Inl:
  "LoanScenarioAnalyzer_calculate_monthly_payment P rate y = Inl e \<Longrightarrow> e \<noteq> ComplexResult \<Longrightarrow>
   LoanScenarioAnalyzer_create_amortization_schedule P rate y sm = Inl e"
  by (simp add: LoanScenarioAnalyzer_create_amortization_schedule_def)

lemma LSA_create_complex:
  "LoanScenarioAnalyzer_calculate_monthly_payment P rate y = Inl ComplexResult \<Longrightarrow>
   LoanScenarioAnalyzer_create_amortization_schedule P rate y sm =
   (if py_int (y * 12) \<le> 0 then Inr [] else Inl TypeError)"
  by (simp add: LoanScenarioAnalyzer_create_amortization_schedule_def py_range_def)

lemma LA_create_Inr:
  assumes "LoanAnalyzer_create_amortization_schedule (LoanAnalyzer_init P rate y) sd now = Inr rows"
  obtains mp where
    "LoanAnalyzer_calculate_monthly_payment (LoanAnalyzer_init P rate y) = Inr mp"
    "app_schedule_loop (rate / 100 / 12) mp (py_range 1 (py_int (y * 12) + 1)) P 0
       (case sd of None \<Rightarrow> now | Some d \<Rightarrow> d) = Inr rows"
  using assms
  by (auto simp: LoanAnalyzer_create_amortization_schedule_def LoanAnalyzer_init_def
      split: sum.splits)

lemma LA_create_of_payment:
  "LoanAnalyzer_calculate_monthly_payment (LoanAnalyzer_init P rate y) = Inr mp \<Longrightarrow>
   LoanAnalyzer_create_amortization_schedule (LoanAnalyzer_init P rate y) sd now =
   app_schedule_loop (rate / 100 / 12) mp (py_range 1 (py_int (y * 12) + 1)) P 0
       (case sd of None \<Rightarrow> now | Some d \<Rightarrow> d)"
  by (simp add: LoanAnalyzer_create_amortization_schedule_def LoanAnalyzer_init_def)

lemma LA_create_Inl:
  "LoanAnalyzer_calculate_monthly_payment self = Inl e \<Longrightarrow>
   LoanAnalyzer_create_amortization_schedule self sd now = Inl e"
  by (simp add: LoanAnalyzer_create_amortization_schedule_def)

text \<open>
  In exact arithmetic the beginning balance that both loops store,
  \<^verbatim>\<open>balance + principal_payment\<close> after \<^verbatim>\<open>balance -= principal_payment\<close>, is the balance
  before the payment: the first record begins at the principal and every later record at
  the ending balance of the record before it.
\<close>

lemma schedule_balances_chain_exact:
  "(LoanScenarioAnalyzer_create_amortization_schedule P rate y sm = Inr rows \<longrightarrow>
      (rows \<noteq> [] \<longrightarrow> Beginning_Balance (hd rows) = P) \<and>
      (\<forall>i. Suc i < length rows \<longrightarrow>
           Beginning_Balance (rows ! Suc i) = Ending_Balance (rows ! i))) \<and>
   (LoanAnalyzer_create_amortization_schedule (LoanAnalyzer_init P rate y) sd now = Inr rows2 \<longrightarrow>
      (rows2 \<noteq> [] \<longrightarrow> Beginning_Balance2 (hd rows2) = P) \<and>
      (\<forall>i. Suc i < length rows2 \<longrightarrow>
           Beginning_Balance2 (rows2 ! Suc i) = Ending_Balance2 (rows2 ! i)))"
proof (intro conjI impI allI)
  assume "LoanScenarioAnalyzer_create_amortization_schedule P rate y sm = Inr rows"
  then obtain mp where
    rows: "rows = schedule_loop (rate / 100 / 12) mp (py_range 0 (py_int (y * 12))) P"
    by (rule LSA_create_Inr)
  show "Beginning_Balance (hd rows) = P" if "rows \<noteq> []"
    using that unfolding rows by (rule schedule_loop_hd)
  show "Beginning_Balance (rows ! Suc i) = Ending_Balance (rows ! i)" if "Suc i < length rows" for i
    using that unfolding rows by (rule schedule_loop_chain)
next
  assume "LoanAnalyzer_create_amortization_schedule (LoanAnalyzer_init P rate y) sd now = Inr rows2"
  then obtain mp where
    loop: "app_schedule_loop (rate / 100 / 12) mp (py_range 1 (py_int (y * 12) + 1)) P 0
       (case sd of None \<Rightarrow> now | Some d \<Rightarrow> d) = Inr rows2"
    by (rule LA_create_Inr)
  show "Beginning_Balance2 (hd rows2) = P" if "rows2 \<noteq> []"
    using loop that by (rule app_schedule_loop_hd)
  show "Beginning_Balance2 (rows2 ! Suc i) = Ending_Balance2 (rows2 ! i)"
    if "Suc i < length rows2" for i
    using loop that by (rule app_schedule_loop_chain)
qed

lemma LSA_example_schedule:
  "LoanScenarioAnalyzer_create_amortization_schedule 300 0 (1 / 4) 1 = Inr
     [\<lparr>Payment = 1, Beginning_Balance = 300, Payment_Amount = 100, Principal = 100,
        Interest = 0, Ending_Balance = 200\<rparr>,
      \<lparr>Payment = 2, Beginning_Balance = 200, Payment_Amount = 100, Principal = 100,
        Interest = 0, Ending_Balance = 100\<rparr>,
      \<lparr>Payment = 3, Beginning_Balance = 100, Payment_Amount = 100, Principal = 100,
        Interest = 0, Ending_Balance = 0\<rparr>]"
  by (simp add: LoanScenarioAnalyzer_create_amortization_schedule_def
      LoanScenarioAnalyzer_calculate_monthly_payment_def py_truediv_def py_int_def py_range_def
      upt_conv_Cons)

lemma LA_example_schedule:
  "LoanAnalyzer_create_amortization_schedule (LoanAnalyzer_init 300 0 (1 / 4)) None
     \<lparr>year = 2024, month = 11, day = 15, time_of_day = 0\<rparr> = Inr
     [\<lparr>Payment_Number = 1, Date = (2024, 11, 15), Beginning_Balance2 = 300,
        Monthly_Payment = 100, Principal_Payment = 100, Interest_Payment = 0,
        Ending_Balance2 = 200, Cumulative_Interest = 0\<rparr>,
      \<lparr>Payment_Number = 2, Date = (2024, 12, 15), Beginning_Balance2 = 200,
        Monthly_Payment = 100, Principal_Payment = 100, Interest_Payment = 0,
        Ending_Balance2 = 100, Cumulative_Interest = 0\<rparr>,
      \<lparr>Payment_Number = 3, Date = (2025, 1, 15), Beginning_Balance2 = 100,
        Monthly_Payment = 100, Principal_Payment = 100, Interest_Payment = 0,
        Ending_Balance2 = 0, Cumulative_Interest = 0\<rparr>]"
  by (simp add: LoanAnalyzer_create_amortization_schedule_def
      LoanAnalyzer_calculate_monthly_payment_def LoanAnalyzer_init_def py_truediv_def
      py_int_def py_range_def upt_conv_Cons next_month_def datetime_replace_def
      days_in_month_def strftime_Ymd_def is_leap_def)





text \<open>
  Claim C7. For \<open>term_years > 0\<close> the loop runs over
  \<^verbatim>\<open>range(int(years * 12))\<close>, so a returned schedule has at most
  \<open>int(term_years \<times> 12)\<close> records, which is at most \<open>round(term_years \<times> 12)\<close>; and
  a term of 27.5 years gives 330 periods.
\<close>

theorem schedule_length_bound:
  assumes "0 < y"
  shows
    "(LoanScenarioAnalyzer_create_amortization_schedule P rate y sm = Inr rows \<longrightarrow>
        length rows \<le> nat (py_int (y * 12)) \<and> length rows \<le> nat (round (y * 12))) \<and>
     (LoanAnalyzer_create_amortization_schedule (LoanAnalyzer_init P rate y) sd now = Inr rows2 \<longrightarrow>
        length rows2 \<le> nat (py_int (y * 12)) \<and> length rows2 \<le> nat (round (y * 12))) \<and>
     py_int (55 / 2 * 12) = 330 \<and> round (55 / 2 * 12 :: real) = 330 \<and>
     self_num_payments (LoanAnalyzer_init P rate (55 / 2)) = 330"
proof -
  from assms have le: "nat (py_int (y * 12)) \<le> nat (round (y * 12))"
    by (intro py_int_le_round) simp
  have a: "length rows \<le> nat (py_int (y * 12))"
    if "LoanScenarioAnalyzer_create_amortization_schedule P rate y sm = Inr rows"
  proof -
    from that obtain mp where
      rows: "rows = schedule_loop (rate / 100 / 12) mp (py_range 0 (py_int (y * 12))) P"
      by (rule LSA_create_Inr)
    show ?thesis
      unfolding rows using schedule_loop_length [of "rate / 100 / 12" mp
          "py_range 0 (py_int (y * 12))" P]
      by (simp add: length_py_range_0)
  qed
  have b: "length rows2 \<le> nat (py_int (y * 12))"
    if "LoanAnalyzer_create_amortization_schedule (LoanAnalyzer_init P rate y) sd now = Inr rows2"
  proof -
    from that obtain mp where
      loop: "app_schedule_loop (rate / 100 / 12) mp (py_range 1 (py_int (y * 12) + 1)) P 0
         (case sd of None \<Rightarrow> now | Some d \<Rightarrow> d) = Inr rows2"
      by (rule LA_create_Inr)
    from app_schedule_loop_length [OF loop] show ?thesis
      by (simp add: length_py_range_1)
  qed
  have c: "py_int (55 / 2 * 12) = 330" "round (55 / 2 * 12 :: real) = 330"
    "self_num_payments (LoanAnalyzer_init P rate (55 / 2)) = 330"
    by (simp_all add: py_int_def LoanAnalyzer_init_def)
  from a b c le show ?thesis by auto
qed

text \<open>
  The example schedules have at most \<open>round(0.25 \<times> 12) = 3\<close> records.
\<close>

theorem schedule_length_bound_witness:
  "\<exists>rows rows2.
     LoanScenarioAnalyzer_create_amortization_schedule 300 0 (1 / 4) 1 = Inr rows \<and>
     LoanAnalyzer_create_amortization_schedule (LoanAnalyzer_init 300 0 (1 / 4)) None
       \<lparr>year = 2024, month = 11, day = 15, time_of_day = 0\<rparr> = Inr rows2 \<and>
     length rows \<le> 3 \<and> length rows2 \<le> 3"
proof -
  obtain rows where
    e: "LoanScenarioAnalyzer_create_amortization_schedule 300 0 (1 / 4) 1 = Inr rows"
    using LSA_example_schedule by simp
  obtain rows2 where
    e2: "LoanAnalyzer_create_amortization_schedule (LoanAnalyzer_init 300 0 (1 / 4)) None
       \<lparr>year = 2024, month = 11, day = 15, time_of_day = 0\<rparr> = Inr rows2"
    using LA_example_schedule by simp
  from schedule_length_bound [of "1 / 4" 300 0 1 rows None
      "\<lparr>year = 2024, month = 11, day = 15, time_of_day = 0\<rparr>" rows2] e e2
  have "length rows \<le> 3 \<and> length rows2 \<le> 3"
    by (simp add: py_int_def)
  with e e2 show ?thesis by blast
qed

section \<open>Schedules: the final balance\<close>

lemma py_range_0_nonempty: "1 \<le> n \<Longrightarrow> py_range 0 n \<noteq> []"
  by (simp add: py_range_def)

lemma py_range_1_nonempty: "1 \<le> n \<Longrightarrow> py_range 1 (n + 1) \<noteq> []"
  by (simp add: py_range_def)

lemma payment_amortizes:
  fixes rate P :: real
  assumes "0 \<le> rate" "0 < n"
  shows "balance_after (rate / 100 / 12)
           (if rate = 0 then P / real n
            else P * (rate / 100 / 12 * (1 + rate / 100 / 12) ^ n) /
                 ((1 + rate / 100 / 12) ^ n - 1)) n P = 0"
proof (cases "rate = 0")
  case True
  with assms(2) show ?thesis by (simp add: balance_after_zero_rate)
next
  case False
  with assms(1) have r: "rate / 100 / 12 \<noteq> 0" "0 < 1 + rate / 100 / 12"
    "1 + rate / 100 / 12 \<noteq> 1" by simp_all
  from r(2,3) assms(2) have "(1 + rate / 100 / 12) ^ n \<noteq> 1" by (rule power_ne_one)
  with r(1) have "balance_after (rate / 100 / 12)
      (P * (rate / 100 / 12 * (1 + rate / 100 / 12) ^ n) / ((1 + rate / 100 / 12) ^ n - 1)) n P = 0"
    by (rule balance_after_annuity)
  with False show ?thesis by simp
qed

lemma LA_payment_valid:
  assumes "0 \<le> rate" "1 \<le> py_int (y * 12)"
  shows "LoanAnalyzer_calculate_monthly_payment (LoanAnalyzer_init P rate y) =
         Inr (if rate = 0 then P / real (nat (py_int (y * 12)))
              else P * (rate / 100 / 12 * (1 + rate / 100 / 12) ^ nat (py_int (y * 12))) /
                   ((1 + rate / 100 / 12) ^ nat (py_int (y * 12)) - 1))"
proof (cases "rate = 0")
  case True
  from assms(2) have "py_int (y * 12) \<noteq> 0" by simp
  then have "LoanAnalyzer_calculate_monthly_payment (LoanAnalyzer_init P 0 y) =
      Inr (P / of_int (py_int (y * 12)))"
    by (rule LA_payment_zero_rate)
  with True assms(2) show ?thesis by simp
next
  case False
  with assms(1) have "- 1200 < rate" "rate \<noteq> 0" by simp_all
  from LA_payment_nonzero_rate [OF this assms(2)] False show ?thesis by simp
qed

lemma LSA_payment_valid:
  assumes "0 \<le> rate" "0 < n" "y * 12 = real n"
  shows "LoanScenarioAnalyzer_calculate_monthly_payment P rate y =
         Inr (if rate = 0 then P / real n
              else P * (rate / 100 / 12 * (1 + rate / 100 / 12) ^ n) /
                   ((1 + rate / 100 / 12) ^ n - 1))"
proof (cases "rate = 0")
  case True
  from assms(2,3) have "y \<noteq> 0" by auto
  then have "LoanScenarioAnalyzer_calculate_monthly_payment P 0 y = Inr (P / (y * 12))"
    by (rule LSA_payment_zero_rate)
  with True assms(3) show ?thesis by simp
next
  case False
  with assms have "- 1200 < rate" "rate \<noteq> 0" "y \<noteq> 0" and base: "0 < 1 + rate / 100 / 12"
    by auto
  from LSA_payment_nonzero_rate [OF this(1,2,3)] False base assms(3) show ?thesis
    by (simp add: powr_realpow)
qed

lemma LSA_schedule_ends_at_zero:
  assumes "0 \<le> rate" "0 < y" "y * 12 = of_int \<lfloor>y * 12\<rfloor>"
  shows "\<exists>rows. LoanScenarioAnalyzer_create_amortization_schedule P rate y sm = Inr rows \<and>
           rows \<noteq> [] \<and> Ending_Balance (last rows) = 0"
proof -
  from assms(2,3) obtain n :: nat where n: "0 < n" "y * 12 = real n" "py_int (y * 12) = int n"
    by (rule whole_months)
  define mp where "mp = (if rate = 0 then P / real n
              else P * (rate / 100 / 12 * (1 + rate / 100 / 12) ^ n) /
                   ((1 + rate / 100 / 12) ^ n - 1))"
  define ms where "ms = py_range 0 (py_int (y * 12))"
  from n have ms: "ms \<noteq> []" "length ms = n"
    by (simp_all add: ms_def py_range_def)
  have "LoanScenarioAnalyzer_calculate_monthly_payment P rate y = Inr mp"
    unfolding mp_def using assms(1) n(1,2) by (rule LSA_payment_valid)
  then have sched: "LoanScenarioAnalyzer_create_amortization_schedule P rate y sm =
      Inr (schedule_loop (rate / 100 / 12) mp ms P)"
    unfolding ms_def by (rule LSA_create_of_payment)
  have "balance_after (rate / 100 / 12) mp n P = 0"
    unfolding mp_def using assms(1) n(1) by (rule payment_amortizes)
  with ms have "Ending_Balance (last (schedule_loop (rate / 100 / 12) mp ms P)) = 0"
    by (intro schedule_loop_last) simp_all
  moreover from ms(1) have "schedule_loop (rate / 100 / 12) mp ms P \<noteq> []"
    by (rule schedule_loop_nonempty)
  ultimately show ?thesis using sched by blast
qed

lemma LA_schedule_ends_at_zero:
  assumes "0 \<le> rate" "1 \<le> py_int (y * 12)"
    and "LoanAnalyzer_create_amortization_schedule (LoanAnalyzer_init P rate y) sd now = Inr rows"
  shows "rows \<noteq> [] \<and> Ending_Balance2 (last rows) = 0"
proof -
  define n where "n = nat (py_int (y * 12))"
  define mp where "mp = (if rate = 0 then P / real n
              else P * (rate / 100 / 12 * (1 + rate / 100 / 12) ^ n) /
                   ((1 + rate / 100 / 12) ^ n - 1))"
  define pn where "pn = py_range 1 (py_int (y * 12) + 1)"
  from assms(2) have n: "0 < n" by (simp add: n_def)
  from assms(2) have pn: "pn \<noteq> []" "length pn = n"
    by (simp_all add: pn_def n_def py_range_def nat_diff_distrib')
  have "LoanAnalyzer_calculate_monthly_payment (LoanAnalyzer_init P rate y) = Inr mp"
    unfolding mp_def n_def using assms(1,2) by (rule LA_payment_valid)
  from LA_create_of_payment [OF this, of sd now] assms(3)
  have loop: "app_schedule_loop (rate / 100 / 12) mp pn P 0
       (case sd of None \<Rightarrow> now | Some d \<Rightarrow> d) = Inr rows"
    by (simp add: pn_def)
  have "balance_after (rate / 100 / 12) mp n P = 0"
    unfolding mp_def using assms(1) n by (rule payment_amortizes)
  with pn have "balance_after (rate / 100 / 12) mp (length pn) P \<le> 0" by simp
  with loop pn(1) show ?thesis by (rule app_schedule_loop_last)
qed

lemma LA_schedule_returns:
  assumes "0 \<le> rate" "1 \<le> py_int (y * 12)"
    and "date_supports (case sd of None \<Rightarrow> now | Some d \<Rightarrow> d) (py_int (y * 12))"
  shows "\<exists>rows. LoanAnalyzer_create_amortization_schedule (LoanAnalyzer_init P rate y) sd now =
           Inr rows"
proof -
  from LA_payment_valid [OF assms(1,2)] obtain mp where
    "LoanAnalyzer_calculate_monthly_payment (LoanAnalyzer_init P rate y) = Inr mp"
    by blast
  from LA_create_of_payment [OF this, of sd now]
  have eq: "LoanAnalyzer_create_amortization_schedule (LoanAnalyzer_init P rate y) sd now =
      app_schedule_loop (rate / 100 / 12) mp (py_range 1 (py_int (y * 12) + 1)) P 0
       (case sd of None \<Rightarrow> now | Some d \<Rightarrow> d)" .
  from assms(2,3) have "date_supports (case sd of None \<Rightarrow> now | Some d \<Rightarrow> d)
      (int (length (py_range 1 (py_int (y * 12) + 1))))"
    by (simp add: length_py_range_1)
  from app_schedule_loop_returns [OF this] eq show ?thesis by simp
qed

text \<open>
  In exact arithmetic the payment amortises the loan in exactly \<open>n\<close> periods, so over a
  whole number of months the final record of either schedule ends at 0.
\<close>

lemma final_balance_zero_exact:
  assumes "0 < P" "0 \<le> rate" "0 < y"
  shows
    "(y * 12 = of_int \<lfloor>y * 12\<rfloor> \<longrightarrow>
        (\<exists>rows. LoanScenarioAnalyzer_create_amortization_schedule P rate y sm = Inr rows \<and>
                rows \<noteq> [] \<and> Ending_Balance (last rows) = 0)) \<and>
     (1 \<le> py_int (y * 12) \<longrightarrow>
        (\<forall>rows2. LoanAnalyzer_create_amortization_schedule (LoanAnalyzer_init P rate y) sd now =
                   Inr rows2 \<longrightarrow>
                 rows2 \<noteq> [] \<and> Ending_Balance2 (last rows2) = 0)) \<and>
     (1 \<le> py_int (y * 12) \<and>
      date_supports (case sd of None \<Rightarrow> now | Some d \<Rightarrow> d) (py_int (y * 12)) \<longrightarrow>
        (\<exists>rows2. LoanAnalyzer_create_amortization_schedule (LoanAnalyzer_init P rate y) sd now =
                   Inr rows2 \<and>
                 rows2 \<noteq> [] \<and> Ending_Balance2 (last rows2) = 0))"
proof -
  have a: "\<exists>rows. LoanScenarioAnalyzer_create_amortization_schedule P rate y sm = Inr rows \<and>
                rows \<noteq> [] \<and> Ending_Balance (last rows) = 0"
    if "y * 12 = of_int \<lfloor>y * 12\<rfloor>"
    using assms(2,3) that by (rule LSA_schedule_ends_at_zero)
  have b: "rows2 \<noteq> [] \<and> Ending_Balance2 (last rows2) = 0"
    if "1 \<le> py_int (y * 12)"
      "LoanAnalyzer_create_amortization_schedule (LoanAnalyzer_init P rate y) sd now = Inr rows2"
    for rows2
    using assms(2) that by (rule LA_schedule_ends_at_zero)
  have c: "\<exists>rows2. LoanAnalyzer_create_amortization_schedule (LoanAnalyzer_init P rate y) sd now =
                   Inr rows2 \<and> rows2 \<noteq> [] \<and> Ending_Balance2 (last rows2) = 0"
    if n: "1 \<le> py_int (y * 12)"
      and d: "date_supports (case sd of None \<Rightarrow> now | Some d \<Rightarrow> d) (py_int (y * 12))"
  proof -
    from assms(2) n d obtain rows2 where
      e: "LoanAnalyzer_create_amortization_schedule (LoanAnalyzer_init P rate y) sd now = Inr rows2"
      using LA_schedule_returns by blast
    from b [OF n e] e show ?thesis by blast
  qed
  from a b c show ?thesis by blast
qed

section \<open>Schedules on doubles\<close>

lemma binary64_zero: "binary64 0 = 0"
  by (simp add: binary64_def)

lemma binary64_exponent:
  assumes "x \<noteq> 0" "\<lfloor>log 2 \<bar>x\<bar>\<rfloor> = k" "- 1022 \<le> k"
  shows "binary64 x =
         of_int (round_half_even (x / 2 powr of_int (k - 52))) * 2 powr of_int (k - 52)"
  using assms by (simp add: binary64_def Let_def max_def)

lemma two_powr_nat: "(2::real) powr of_int (int n) = 2 ^ n"
  by (simp add: powr_realpow)

lemma two_powr_neg_nat: "(2::real) powr of_int (- int n) = 1 / 2 ^ n"
proof -
  have "(2::real) powr of_int (- int n) = 2 powr (- real n)" by simp
  also have "\<dots> = inverse (2 powr real n)" by (rule powr_minus)
  also have "\<dots> = 1 / 2 ^ n" by (simp add: powr_realpow inverse_eq_divide)
  finally show ?thesis .
qed

lemma binary64_binade:
  assumes "2 ^ n \<le> \<bar>x\<bar>" "\<bar>x\<bar> < 2 ^ Suc n" "n \<le> 52"
  shows "binary64 x = of_int (round_half_even (x * 2 ^ (52 - n))) / 2 ^ (52 - n)"
proof -
  have "(0::real) < 2 ^ n" by simp
  with assms(1) have pos: "0 < \<bar>x\<bar>" by linarith
  then have nz: "x \<noteq> 0" by simp
  have "(2::real) powr (of_int (int n) + 1) = 2 powr of_int (int (Suc n))"
    by (simp add: add.commute)
  then have up: "(2::real) powr (of_int (int n) + 1) = 2 ^ Suc n"
    by (simp only: two_powr_nat)
  have "2 powr of_int (int n) \<le> \<bar>x\<bar> \<and> \<bar>x\<bar> < 2 powr (of_int (int n) + 1)"
    unfolding up two_powr_nat using assms(1,2) by simp
  with pos have fl: "\<lfloor>log 2 \<bar>x\<bar>\<rfloor> = int n"
    by (subst floor_log_eq_powr_iff) simp_all
  from assms(3) have "int n - 52 = - int (52 - n)" by simp
  then have u: "(2::real) powr of_int (int n - 52) = 1 / 2 ^ (52 - n)"
    by (simp only: two_powr_neg_nat)
  have "binary64 x =
      of_int (round_half_even (x / 2 powr of_int (int n - 52))) * 2 powr of_int (int n - 52)"
    using nz fl by (rule binary64_exponent) simp
  then show ?thesis unfolding u by simp
qed

lemma binary64_small:
  assumes "1 / 2 ^ Suc m \<le> \<bar>x\<bar>" "\<bar>x\<bar> < 1 / 2 ^ m" "m < 1022"
  shows "binary64 x = of_int (round_half_even (x * 2 ^ (53 + m))) / 2 ^ (53 + m)"
proof -
  have "(0::real) < 1 / 2 ^ Suc m" by simp
  with assms(1) have pos: "0 < \<bar>x\<bar>" by linarith
  then have nz: "x \<noteq> 0" by simp
  have "real_of_int (- int (Suc m)) + 1 = of_int (- int m)" by simp
  then have up: "(2::real) powr (of_int (- int (Suc m)) + 1) = 1 / 2 ^ m"
    by (simp only: two_powr_neg_nat)
  have "2 powr of_int (- int (Suc m)) \<le> \<bar>x\<bar> \<and> \<bar>x\<bar> < 2 powr (of_int (- int (Suc m)) + 1)"
    unfolding up two_powr_neg_nat using assms(1,2) by simp
  with pos have fl: "\<lfloor>log 2 \<bar>x\<bar>\<rfloor> = - int (Suc m)"
    by (subst floor_log_eq_powr_iff) simp_all
  have "- int (Suc m) - 52 = - int (53 + m)" by simp
  then have u: "(2::real) powr of_int (- int (Suc m) - 52) = 1 / 2 ^ (53 + m)"
    by (simp only: two_powr_neg_nat)
  have "binary64 x =
      of_int (round_half_even (x / 2 powr of_int (- int (Suc m) - 52))) *
      2 powr of_int (- int (Suc m) - 52)"
    using nz fl by (rule binary64_exponent) (use assms(3) in simp)
  then show ?thesis unfolding u by simp
qed

lemma binary64_times_zero: "binary64 (b * 0) = 0"
  by (simp add: binary64_zero)

lemma monthly_rate_double_zero: "binary64 (binary64 (0 / 100) / 12) = 0"
  by (simp add: binary64_zero)

lemma payment_double_zero_rate:
  assumes "binary64 (y * 12) = n" "n \<noteq> 0" "binary64 (P / n) = mp"
  shows "LoanScenarioAnalyzer_calculate_monthly_payment_double P 0 y = Inr mp"
  using assms
  by (simp add: LoanScenarioAnalyzer_calculate_monthly_payment_double_def py_truediv_double_def)

lemma create_double_of_payment:
  assumes "LoanScenarioAnalyzer_calculate_monthly_payment_double P rate y = Inr mp"
    "binary64 (binary64 (rate / 100) / 12) = mr" "binary64 (y * 12) = n"
    "py_range 0 (py_int n) = ms"
  shows "LoanScenarioAnalyzer_create_amortization_schedule_double P rate y sm =
         Inr (schedule_loop_double mr mp ms P)"
  using assms by (simp add: LoanScenarioAnalyzer_create_amortization_schedule_double_def)

lemma schedule_loop_double_continue:
  assumes "binary64 (b * mr) = ip" "binary64 (mp - ip) = pp" "binary64 (b - pp) = b'"
    "binary64 (b' + pp) = beg" "0 < b'"
  shows "schedule_loop_double mr mp (m # ms) b =
         \<lparr>Payment = m + 1, Beginning_Balance = beg, Payment_Amount = mp, Principal = pp,
           Interest = ip, Ending_Balance = b'\<rparr> # schedule_loop_double mr mp ms b'"
  using assms by (simp add: Let_def)

lemma schedule_loop_double_last:
  assumes "binary64 (b * mr) = ip" "binary64 (mp - ip) = pp" "binary64 (b - pp) = b'"
    "binary64 (b' + pp) = beg"
  shows "schedule_loop_double mr mp [m] b =
         [\<lparr>Payment = m + 1, Beginning_Balance = beg, Payment_Amount = mp, Principal = pp,
            Interest = ip, Ending_Balance = max 0 b'\<rparr>]"
  using assms by (simp add: Let_def)


lemma binary64_3: "binary64 3 = 3"
  by (simp add: binary64_binade [where n = 1] round_half_even_def)





lemma app_schedule_loop_double_continue:
  assumes "binary64 (b * mr) = ip" "binary64 (mp - ip) = pp" "binary64 (b - pp) = b'"
    "binary64 (b' + pp) = beg" "binary64 (c + ip) = c'" "next_month d = Inr d'" "0 < b'"
    "app_schedule_loop_double mr mp pn b' c' d' = Inr rest"
  shows "app_schedule_loop_double mr mp (p # pn) b c d =
         Inr (\<lparr>Payment_Number = p, Date = strftime_Ymd d, Beginning_Balance2 = beg,
                Monthly_Payment = mp, Principal_Payment = pp, Interest_Payment = ip,
                Ending_Balance2 = b', Cumulative_Interest = c'\<rparr> # rest)"
  using assms by (simp add: Let_def)

lemma app_schedule_loop_double_stop:
  assumes "binary64 (b * mr) = ip" "binary64 (mp - ip) = pp" "binary64 (b - pp) = b'"
    "binary64 (b' + pp) = beg" "binary64 (c + ip) = c'" "next_month d = Inr d'"
    "b' \<le> 0 \<or> pn = []"
  shows "app_schedule_loop_double mr mp (p # pn) b c d =
         Inr [\<lparr>Payment_Number = p, Date = strftime_Ymd d, Beginning_Balance2 = beg,
                Monthly_Payment = mp, Principal_Payment = pp, Interest_Payment = ip,
                Ending_Balance2 = max 0 b', Cumulative_Interest = c'\<rparr>]"
  using assms by (auto simp: Let_def)

lemma LA_payment_double_zero_rate:
  assumes "py_int (binary64 (y * 12)) = n" "n \<noteq> 0" "binary64 (P / of_int n) = mp"
  shows "LoanAnalyzer_calculate_monthly_payment_double (LoanAnalyzer_init_double P 0 y) = Inr mp"
  using assms
  by (simp add: LoanAnalyzer_calculate_monthly_payment_double_def LoanAnalyzer_init_double_def
      py_truediv_double_def)

lemma LA_create_double_of_payment:
  assumes "LoanAnalyzer_calculate_monthly_payment_double (LoanAnalyzer_init_double P rate y) =
             Inr mp"
    "binary64 (binary64 (rate / 100) / 12) = mr"
    "py_range 1 (py_int (binary64 (y * 12)) + 1) = pn"
  shows "LoanAnalyzer_create_amortization_schedule_double (LoanAnalyzer_init_double P rate y)
           sd now =
         app_schedule_loop_double mr mp pn P 0 (case sd of None \<Rightarrow> now | Some d \<Rightarrow> d)"
  using assms
  by (simp add: LoanAnalyzer_create_amortization_schedule_double_def
      LoanAnalyzer_init_double_def)


text \<open>
  Claim C3: the first record's beginning balance equals the principal, and every later
  record's beginning balance equals the ending balance of the record before it. The code
  does not store the balance it started from: it stores \<^verbatim>\<open>balance + principal_payment\<close>
  after \<^verbatim>\<open>balance -= principal_payment\<close>, and on doubles that sum is not always the old
  balance. For a principal of 1000.32 (the double \<open>8798907771975107 / 2^43\<close>) at no
  interest over a quarter of a year, the first record of either implementation begins at
  1000.3200000000002 (\<open>2199726942993777 / 2^41\<close>).
\<close>

theorem beginning_balance_recomputed:
  "LoanScenarioAnalyzer_create_amortization_schedule_double
     (8798907771975107 / 8796093022208) 0 (1 / 4) 1 =
     Inr [\<lparr>Payment = 1, Beginning_Balance = 2199726942993777 / 2199023255552,
           Payment_Amount = 5865938514650071 / 17592186044416,
           Principal = 5865938514650071 / 17592186044416, Interest = 0,
           Ending_Balance = 733242314331259 / 1099511627776\<rparr>,
          \<lparr>Payment = 2, Beginning_Balance = 733242314331259 / 1099511627776,
           Payment_Amount = 5865938514650071 / 17592186044416,
           Principal = 5865938514650071 / 17592186044416, Interest = 0,
           Ending_Balance = 5865938514650073 / 17592186044416\<rparr>,
          \<lparr>Payment = 3, Beginning_Balance = 5865938514650073 / 17592186044416,
           Payment_Amount = 5865938514650071 / 17592186044416,
           Principal = 5865938514650071 / 17592186044416, Interest = 0,
           Ending_Balance = 1 / 8796093022208\<rparr>] \<and>
   LoanAnalyzer_create_amortization_schedule_double
     (LoanAnalyzer_init_double (8798907771975107 / 8796093022208) 0 (1 / 4)) None
     \<lparr>year = 2024, month = 11, day = 15, time_of_day = 0\<rparr> =
     Inr [\<lparr>Payment_Number = 1, Date = (2024, 11, 15), Beginning_Balance2 = 2199726942993777 / 2199023255552,
           Monthly_Payment = 5865938514650071 / 17592186044416,
           Principal_Payment = 5865938514650071 / 17592186044416, Interest_Payment = 0,
           Ending_Balance2 = 733242314331259 / 1099511627776, Cumulative_Interest = 0\<rparr>,
          \<lparr>Payment_Number = 2, Date = (2024, 12, 15), Beginning_Balance2 = 733242314331259 / 1099511627776,
           Monthly_Payment = 5865938514650071 / 17592186044416,
           Principal_Payment = 5865938514650071 / 17592186044416, Interest_Payment = 0,
           Ending_Balance2 = 5865938514650073 / 17592186044416, Cumulative_Interest = 0\<rparr>,
          \<lparr>Payment_Number = 3, Date = (2025, 1, 15), Beginning_Balance2 = 5865938514650073 / 17592186044416,
           Monthly_Payment = 5865938514650071 / 17592186044416,
           Principal_Payment = 5865938514650071 / 17592186044416, Interest_Payment = 0,
           Ending_Balance2 = 1 / 8796093022208, Cumulative_Interest = 0\<rparr>] \<and>
   (2199726942993777 / 2199023255552 :: real) \<noteq> 8798907771975107 / 8796093022208"
proof -
  have r3: "binary64 (1 / 4 * 12) = 3"
    by (simp add: binary64_binade [where n = 1] round_half_even_def)
  have mp: "binary64 (8798907771975107 / 8796093022208 / 3) = 5865938514650071 / 17592186044416"
    by (simp add: binary64_binade [where n = 8] round_half_even_def)
  have pp: "binary64 (5865938514650071 / 17592186044416 - 0) = 5865938514650071 / 17592186044416"
    by (simp add: binary64_binade [where n = 8] round_half_even_def)
  have b1: "binary64 (8798907771975107 / 8796093022208 - 5865938514650071 / 17592186044416) = 733242314331259 / 1099511627776"
    by (simp add: binary64_binade [where n = 9] round_half_even_def)
  have beg1: "binary64 (733242314331259 / 1099511627776 + 5865938514650071 / 17592186044416) = 2199726942993777 / 2199023255552"
    by (simp add: binary64_binade [where n = 9] round_half_even_def)
  have b2: "binary64 (733242314331259 / 1099511627776 - 5865938514650071 / 17592186044416) = 5865938514650073 / 17592186044416"
    by (simp add: binary64_binade [where n = 8] round_half_even_def)
  have beg2: "binary64 (5865938514650073 / 17592186044416 + 5865938514650071 / 17592186044416) = 733242314331259 / 1099511627776"
    by (simp add: binary64_binade [where n = 9] round_half_even_def)
  have b3: "binary64 (5865938514650073 / 17592186044416 - 5865938514650071 / 17592186044416) = 1 / 8796093022208"
    by (simp add: binary64_small [where m = 42] round_half_even_def)
  have beg3: "binary64 (1 / 8796093022208 + 5865938514650071 / 17592186044416) = 5865938514650073 / 17592186044416"
    by (simp add: binary64_binade [where n = 8] round_half_even_def)
  have pay: "LoanScenarioAnalyzer_calculate_monthly_payment_double (8798907771975107 / 8796093022208) 0 (1 / 4) =
      Inr (5865938514650071 / 17592186044416)"
    by (rule payment_double_zero_rate [OF r3 _ mp]) simp
  have months: "py_range 0 (py_int 3) = [0, 1, 2]"
    by (simp add: py_range_def py_int_def upt_conv_Cons)
  have s1: "schedule_loop_double 0 (5865938514650071 / 17592186044416) [0, 1, 2] (8798907771975107 / 8796093022208) =
      \<lparr>Payment = 0 + 1, Beginning_Balance = 2199726942993777 / 2199023255552, Payment_Amount = 5865938514650071 / 17592186044416,
        Principal = 5865938514650071 / 17592186044416, Interest = 0, Ending_Balance = 733242314331259 / 1099511627776\<rparr> #
      schedule_loop_double 0 (5865938514650071 / 17592186044416) [1, 2] (733242314331259 / 1099511627776)"
    by (rule schedule_loop_double_continue [OF binary64_times_zero pp b1 beg1]) simp
  have s2: "schedule_loop_double 0 (5865938514650071 / 17592186044416) [1, 2] (733242314331259 / 1099511627776) =
      \<lparr>Payment = 1 + 1, Beginning_Balance = 733242314331259 / 1099511627776, Payment_Amount = 5865938514650071 / 17592186044416,
        Principal = 5865938514650071 / 17592186044416, Interest = 0, Ending_Balance = 5865938514650073 / 17592186044416\<rparr> #
      schedule_loop_double 0 (5865938514650071 / 17592186044416) [2] (5865938514650073 / 17592186044416)"
    by (rule schedule_loop_double_continue [OF binary64_times_zero pp b2 beg2]) simp
  have s3: "schedule_loop_double 0 (5865938514650071 / 17592186044416) [2] (5865938514650073 / 17592186044416) =
      [\<lparr>Payment = 2 + 1, Beginning_Balance = 5865938514650073 / 17592186044416, Payment_Amount = 5865938514650071 / 17592186044416,
         Principal = 5865938514650071 / 17592186044416, Interest = 0, Ending_Balance = max 0 (1 / 8796093022208)\<rparr>]"
    by (rule schedule_loop_double_last [OF binary64_times_zero pp b3 beg3])
  have "LoanScenarioAnalyzer_create_amortization_schedule_double (8798907771975107 / 8796093022208) 0 (1 / 4) 1 =
      Inr (schedule_loop_double 0 (5865938514650071 / 17592186044416) [0, 1, 2] (8798907771975107 / 8796093022208))"
    by (rule create_double_of_payment [OF pay monthly_rate_double_zero r3 months])
  then have lsa: "LoanScenarioAnalyzer_create_amortization_schedule_double
     (8798907771975107 / 8796093022208) 0 (1 / 4) 1 =
     Inr [\<lparr>Payment = 1, Beginning_Balance = 2199726942993777 / 2199023255552,
           Payment_Amount = 5865938514650071 / 17592186044416,
           Principal = 5865938514650071 / 17592186044416, Interest = 0,
           Ending_Balance = 733242314331259 / 1099511627776\<rparr>,
          \<lparr>Payment = 2, Beginning_Balance = 733242314331259 / 1099511627776,
           Payment_Amount = 5865938514650071 / 17592186044416,
           Principal = 5865938514650071 / 17592186044416, Interest = 0,
           Ending_Balance = 5865938514650073 / 17592186044416\<rparr>,
          \<lparr>Payment = 3, Beginning_Balance = 5865938514650073 / 17592186044416,
           Payment_Amount = 5865938514650071 / 17592186044416,
           Principal = 5865938514650071 / 17592186044416, Interest = 0,
           Ending_Balance = 1 / 8796093022208\<rparr>]"
    unfolding s1 s2 s3 by simp
  have n: "py_int (binary64 (1 / 4 * 12)) = 3"
    by (simp add: binary64_3 py_int_def)
  have mp': "binary64 (8798907771975107 / 8796093022208 / of_int 3) = 5865938514650071 / 17592186044416"
    using mp by simp
  have c0: "binary64 (0 + 0) = 0"
    by (simp add: binary64_zero)
  have d1: "next_month \<lparr>year = 2024, month = 11, day = 15, time_of_day = 0\<rparr> =
      Inr \<lparr>year = 2024, month = 12, day = 15, time_of_day = 0\<rparr>"
    by (simp add: next_month_def datetime_replace_def days_in_month_def)
  have d2: "next_month \<lparr>year = 2024, month = 12, day = 15, time_of_day = 0\<rparr> =
      Inr \<lparr>year = 2025, month = 1, day = 15, time_of_day = 0\<rparr>"
    by (simp add: next_month_def datetime_replace_def days_in_month_def)
  have d3: "next_month \<lparr>year = 2025, month = 1, day = 15, time_of_day = 0\<rparr> =
      Inr \<lparr>year = 2025, month = 2, day = 15, time_of_day = 0\<rparr>"
    by (simp add: next_month_def datetime_replace_def days_in_month_def is_leap_def)
  have pay': "LoanAnalyzer_calculate_monthly_payment_double
      (LoanAnalyzer_init_double (8798907771975107 / 8796093022208) 0 (1 / 4)) =
      Inr (5865938514650071 / 17592186044416)"
    by (rule LA_payment_double_zero_rate [OF n _ mp']) simp
  have pn: "py_range 1 (py_int (binary64 (1 / 4 * 12)) + 1) = [1, 2, 3]"
    by (simp add: binary64_3 py_int_def py_range_def upt_conv_Cons)
  note t3 = app_schedule_loop_double_stop [OF binary64_times_zero pp b3 beg3 c0 d3, of "[]" 3]
  note t2 = app_schedule_loop_double_continue [OF binary64_times_zero pp b2 beg2 c0 d2 _ t3, of 2]
  note t1 = app_schedule_loop_double_continue [OF binary64_times_zero pp b1 beg1 c0 d1 _ t2, of 1]
  have "LoanAnalyzer_create_amortization_schedule_double
      (LoanAnalyzer_init_double (8798907771975107 / 8796093022208) 0 (1 / 4)) None
      \<lparr>year = 2024, month = 11, day = 15, time_of_day = 0\<rparr> =
      app_schedule_loop_double 0 (5865938514650071 / 17592186044416) [1, 2, 3]
        (8798907771975107 / 8796093022208) 0 \<lparr>year = 2024, month = 11, day = 15, time_of_day = 0\<rparr>"
    using LA_create_double_of_payment [OF pay' monthly_rate_double_zero pn, of None
        "\<lparr>year = 2024, month = 11, day = 15, time_of_day = 0\<rparr>"]
    by (simp only: option.case)
  also have "\<dots> = Inr [\<lparr>Payment_Number = 1, Date = (2024, 11, 15), Beginning_Balance2 = 2199726942993777 / 2199023255552,
           Monthly_Payment = 5865938514650071 / 17592186044416,
           Principal_Payment = 5865938514650071 / 17592186044416, Interest_Payment = 0,
           Ending_Balance2 = 733242314331259 / 1099511627776, Cumulative_Interest = 0\<rparr>,
          \<lparr>Payment_Number = 2, Date = (2024, 12, 15), Beginning_Balance2 = 733242314331259 / 1099511627776,
           Monthly_Payment = 5865938514650071 / 17592186044416,
           Principal_Payment = 5865938514650071 / 17592186044416, Interest_Payment = 0,
           Ending_Balance2 = 5865938514650073 / 17592186044416, Cumulative_Interest = 0\<rparr>,
          \<lparr>Payment_Number = 3, Date = (2025, 1, 15), Beginning_Balance2 = 5865938514650073 / 17592186044416,
           Monthly_Payment = 5865938514650071 / 17592186044416,
           Principal_Payment = 5865938514650071 / 17592186044416, Interest_Payment = 0,
           Ending_Balance2 = 1 / 8796093022208, Cumulative_Interest = 0\<rparr>]"
    by (subst t1) (simp_all add: strftime_Ymd_def)
  finally have la: "LoanAnalyzer_create_amortization_schedule_double
     (LoanAnalyzer_init_double (8798907771975107 / 8796093022208) 0 (1 / 4)) None
     \<lparr>year = 2024, month = 11, day = 15, time_of_day = 0\<rparr> =
     Inr [\<lparr>Payment_Number = 1, Date = (2024, 11, 15), Beginning_Balance2 = 2199726942993777 / 2199023255552,
           Monthly_Payment = 5865938514650071 / 17592186044416,
           Principal_Payment = 5865938514650071 / 17592186044416, Interest_Payment = 0,
           Ending_Balance2 = 733242314331259 / 1099511627776, Cumulative_Interest = 0\<rparr>,
          \<lparr>Payment_Number = 2, Date = (2024, 12, 15), Beginning_Balance2 = 733242314331259 / 1099511627776,
           Monthly_Payment = 5865938514650071 / 17592186044416,
           Principal_Payment = 5865938514650071 / 17592186044416, Interest_Payment = 0,
           Ending_Balance2 = 5865938514650073 / 17592186044416, Cumulative_Interest = 0\<rparr>,
          \<lparr>Payment_Number = 3, Date = (2025, 1, 15), Beginning_Balance2 = 5865938514650073 / 17592186044416,
           Monthly_Payment = 5865938514650071 / 17592186044416,
           Principal_Payment = 5865938514650071 / 17592186044416, Interest_Payment = 0,
           Ending_Balance2 = 1 / 8796093022208, Cumulative_Interest = 0\<rparr>]" .
  from lsa la show ?thesis by simp
qed















section \<open>The zero-rate loan\<close>

text \<open>
  Claim C2, as amended. For \<open>annual_rate = 0\<close>, \<open>principal > 0\<close> and
  \<open>term_years > 0\<close>: \<^verbatim>\<open>LoanScenarioAnalyzer.calculate_monthly_payment\<close> returns
  \<open>principal / (term_years \<times> 12)\<close>; \<^verbatim>\<open>LoanAnalyzer.calculate_monthly_payment\<close> returns
  \<open>principal / int(term_years \<times> 12)\<close> when that divisor is at least 1, which is the same
  value when \<open>term_years \<times> 12\<close> is a whole number. Both return 1000 for 120000 over 10
  years. Every record of a zero-rate schedule has interest 0 and a principal portion equal
  to the payment; \<^verbatim>\<open>LoanScenarioAnalyzer\<close> always returns the schedule, \<^verbatim>\<open>LoanAnalyzer\<close>
  does from a starting date whose day exists in every month.
\<close>

theorem zero_rate_payment:
  assumes "0 < P" "0 < y"
  shows
    "LoanScenarioAnalyzer_calculate_monthly_payment P 0 y = Inr (P / (y * 12)) \<and>
     (1 \<le> py_int (y * 12) \<longrightarrow>
        LoanAnalyzer_calculate_monthly_payment (LoanAnalyzer_init P 0 y) =
          Inr (P / of_int (py_int (y * 12)))) \<and>
     (y * 12 = of_int \<lfloor>y * 12\<rfloor> \<longrightarrow>
        LoanAnalyzer_calculate_monthly_payment (LoanAnalyzer_init P 0 y) = Inr (P / (y * 12))) \<and>
     LoanScenarioAnalyzer_calculate_monthly_payment 120000 0 10 = Inr 1000 \<and>
     LoanAnalyzer_calculate_monthly_payment (LoanAnalyzer_init 120000 0 10) = Inr 1000 \<and>
     (\<exists>rows. LoanScenarioAnalyzer_create_amortization_schedule P 0 y sm = Inr rows \<and>
        (\<forall>row \<in> set rows.
            Interest row = 0 \<and> Principal row = Payment_Amount row \<and>
            Payment_Amount row = P / (y * 12))) \<and>
     (\<forall>rows2. LoanAnalyzer_create_amortization_schedule (LoanAnalyzer_init P 0 y) sd now =
                Inr rows2 \<longrightarrow>
        (\<forall>row \<in> set rows2.
            Interest_Payment row = 0 \<and> Principal_Payment row = Monthly_Payment row \<and>
            Monthly_Payment row = P / of_int (py_int (y * 12)))) \<and>
     (1 \<le> py_int (y * 12) \<and>
      date_supports (case sd of None \<Rightarrow> now | Some d \<Rightarrow> d) (py_int (y * 12)) \<longrightarrow>
        (\<exists>rows2. LoanAnalyzer_create_amortization_schedule (LoanAnalyzer_init P 0 y) sd now =
                   Inr rows2))"
proof -
  from assms(2) have y: "y \<noteq> 0" by simp
  have lsa: "LoanScenarioAnalyzer_calculate_monthly_payment P 0 y = Inr (P / (y * 12))"
    using y by (rule LSA_payment_zero_rate)
  have la: "LoanAnalyzer_calculate_monthly_payment (LoanAnalyzer_init P 0 y) =
          Inr (P / of_int (py_int (y * 12)))" if "1 \<le> py_int (y * 12)"
    using that by (intro LA_payment_zero_rate) simp
  have la_whole: "LoanAnalyzer_calculate_monthly_payment (LoanAnalyzer_init P 0 y) =
      Inr (P / (y * 12))" if whole: "y * 12 = of_int \<lfloor>y * 12\<rfloor>"
  proof -
    from assms(2) whole obtain n :: nat where n: "0 < n" "y * 12 = real n"
        "py_int (y * 12) = int n"
      by (rule whole_months)
    then have "1 \<le> py_int (y * 12)" by simp
    from la [OF this] n show ?thesis by simp
  qed
  have particular:
    "LoanScenarioAnalyzer_calculate_monthly_payment 120000 0 10 = Inr 1000"
    "LoanAnalyzer_calculate_monthly_payment (LoanAnalyzer_init 120000 0 10) = Inr 1000"
    by (simp_all add: LSA_payment_zero_rate LA_payment_zero_rate py_int_def)
  have sched: "\<exists>rows. LoanScenarioAnalyzer_create_amortization_schedule P 0 y sm = Inr rows \<and>
        (\<forall>row \<in> set rows.
            Interest row = 0 \<and> Principal row = Payment_Amount row \<and>
            Payment_Amount row = P / (y * 12))"
  proof -
    from LSA_create_of_payment [OF lsa, of sm]
    have "LoanScenarioAnalyzer_create_amortization_schedule P 0 y sm =
        Inr (schedule_loop 0 (P / (y * 12)) (py_range 0 (py_int (y * 12))) P)"
      by simp
    moreover have "Interest row = 0 \<and> Principal row = Payment_Amount row \<and>
            Payment_Amount row = P / (y * 12)"
      if "row \<in> set (schedule_loop 0 (P / (y * 12)) (py_range 0 (py_int (y * 12))) P)" for row
      using schedule_loop_zero_rate [OF that] by simp
    ultimately show ?thesis by blast
  qed
  have sched2: "Interest_Payment row = 0 \<and> Principal_Payment row = Monthly_Payment row \<and>
            Monthly_Payment row = P / of_int (py_int (y * 12))"
    if e: "LoanAnalyzer_create_amortization_schedule (LoanAnalyzer_init P 0 y) sd now = Inr rows2"
      and mem: "row \<in> set rows2" for rows2 row
  proof -
    from e obtain mp where
      mp: "LoanAnalyzer_calculate_monthly_payment (LoanAnalyzer_init P 0 y) = Inr mp" and
      loop: "app_schedule_loop (0 / 100 / 12) mp (py_range 1 (py_int (y * 12) + 1)) P 0
         (case sd of None \<Rightarrow> now | Some d \<Rightarrow> d) = Inr rows2"
      by (rule LA_create_Inr)
    have "py_int (y * 12) \<noteq> 0"
    proof
      assume "py_int (y * 12) = 0"
      then have "LoanAnalyzer_calculate_monthly_payment (LoanAnalyzer_init P 0 y) =
          Inl ZeroDivisionError"
        by (simp add: LoanAnalyzer_calculate_monthly_payment_def LoanAnalyzer_init_def
            py_truediv_def)
      with mp show False by simp
    qed
    from LA_payment_zero_rate [OF this, of P] mp
    have "mp = P / of_int (py_int (y * 12))" by simp
    moreover from loop have "app_schedule_loop 0 mp (py_range 1 (py_int (y * 12) + 1)) P 0
         (case sd of None \<Rightarrow> now | Some d \<Rightarrow> d) = Inr rows2" by simp
    from app_schedule_loop_zero_rate [OF this mem]
    have "Interest_Payment row = 0 \<and> Principal_Payment row = mp \<and> Monthly_Payment row = mp" .
    ultimately show ?thesis by simp
  qed
  have returns: "\<exists>rows2. LoanAnalyzer_create_amortization_schedule (LoanAnalyzer_init P 0 y) sd now =
                   Inr rows2"
    if "1 \<le> py_int (y * 12)"
      "date_supports (case sd of None \<Rightarrow> now | Some d \<Rightarrow> d) (py_int (y * 12))"
    using that by (intro LA_schedule_returns) simp_all
  from lsa la la_whole particular sched sched2 returns show ?thesis by blast
qed

text \<open>
  The specification's example, 120000 at no interest over 10 years, in both
  implementations: the payment is 1000 and every record has interest 0 and principal
  portion 1000.
\<close>

theorem zero_rate_payment_witness:
  "LoanScenarioAnalyzer_calculate_monthly_payment 120000 0 10 = Inr 1000 \<and>
   LoanAnalyzer_calculate_monthly_payment (LoanAnalyzer_init 120000 0 10) = Inr 1000 \<and>
   (\<exists>rows. LoanScenarioAnalyzer_create_amortization_schedule 120000 0 10 1 = Inr rows \<and>
      list_all (\<lambda>row. Interest row = 0 \<and> Principal row = 1000 \<and> Payment_Amount row = 1000) rows) \<and>
   (\<exists>rows2. LoanAnalyzer_create_amortization_schedule (LoanAnalyzer_init 120000 0 10) None
      \<lparr>year = 2024, month = 11, day = 15, time_of_day = 0\<rparr> = Inr rows2 \<and>
      list_all (\<lambda>row. Interest_Payment row = 0 \<and> Principal_Payment row = 1000 \<and>
                      Monthly_Payment row = 1000) rows2)"
  using zero_rate_payment [of 120000 10 1 None
      "\<lparr>year = 2024, month = 11, day = 15, time_of_day = 0\<rparr>"]
  by (fastforce simp: py_int_def date_supports_def list_all_iff)

text \<open>
  Claim C2 as stated fails in \<^verbatim>\<open>LoanAnalyzer\<close> where \<open>term_years \<times> 12\<close> is not
  whole: 120 over an eighth of a year (1.5 months) is divided by \<open>int(1.5) = 1\<close>, not
  by 1.5.
\<close>

theorem zero_rate_truncation_counterexample:
  "LoanAnalyzer_calculate_monthly_payment (LoanAnalyzer_init 120 0 (1 / 8)) \<noteq>
   Inr (120 / (1 / 8 * 12))"
  by (simp add: LoanAnalyzer_calculate_monthly_payment_def LoanAnalyzer_init_def py_int_def
      py_truediv_def)

section \<open>Input validation and the clock\<close>

lemma LSA_payment_zero_years:
  "LoanScenarioAnalyzer_calculate_monthly_payment P rate 0 = Inl ZeroDivisionError"
  by (simp add: LoanScenarioAnalyzer_calculate_monthly_payment_def py_pow_def py_pow_int_def
      py_truediv_def Let_def)

lemma LA_payment_zero_periods:
  "py_int (y * 12) = 0 \<Longrightarrow>
   LoanAnalyzer_calculate_monthly_payment (LoanAnalyzer_init P rate y) = Inl ZeroDivisionError"
  by (simp add: LoanAnalyzer_calculate_monthly_payment_def LoanAnalyzer_init_def py_pow_int_def
      py_truediv_def)

lemma LSA_payment_error_any_principal:
  "(LoanScenarioAnalyzer_calculate_monthly_payment P rate y = Inl e) =
   (LoanScenarioAnalyzer_calculate_monthly_payment P' rate y = Inl e)"
  by (simp add: LoanScenarioAnalyzer_calculate_monthly_payment_def py_truediv_def Let_def
      split: sum.splits)

lemma LA_payment_error_any_principal:
  "(LoanAnalyzer_calculate_monthly_payment (LoanAnalyzer_init P rate y) = Inl e) =
   (LoanAnalyzer_calculate_monthly_payment (LoanAnalyzer_init P' rate y) = Inl e)"
  by (simp add: LoanAnalyzer_calculate_monthly_payment_def LoanAnalyzer_init_def py_truediv_def
      split: sum.splits)

lemma LSA_payment_complex_example:
  "LoanScenarioAnalyzer_calculate_monthly_payment 100 (- 1300) (1 / 20) = Inl ComplexResult"
  "LoanScenarioAnalyzer_calculate_monthly_payment 100 (- 1300) (1 / 8) = Inl ComplexResult"
  by (simp_all add: LoanScenarioAnalyzer_calculate_monthly_payment_def py_pow_def Let_def)

text \<open>
  Claim C6, as amended. Neither implementation validates its inputs, and neither raises
  \<^verbatim>\<open>InvalidArgument\<close>. The principal is never inspected: whether the payment is returned
  or an exception raised, and which, does not depend on it. At \<open>annual_rate = 0\<close> the
  payment \<open>principal / (term_years \<times> 12)\<close> is returned for every principal and every
  \<open>term_years \<noteq> 0\<close> of either sign (\<^verbatim>\<open>LoanAnalyzer\<close>: \<open>principal / int(term_years \<times> 12)\<close>
  when that divisor is not 0). What the payment raises at \<open>term_years = 0\<close>
  (\<^verbatim>\<open>LoanAnalyzer\<close>: at \<open>int(term_years \<times> 12) = 0\<close>) is \<^verbatim>\<open>ZeroDivisionError\<close>. An exception
  raised by the payment leaves the schedule function as it is, before any record is
  built; a complex payment, which \<^verbatim>\<open>LoanScenarioAnalyzer\<close> returns for a rate below -1200
  and a fractional number of months, gives the empty schedule when
  \<open>int(term_years \<times> 12) \<le> 0\<close> and \<^verbatim>\<open>TypeError\<close> otherwise.
\<close>

theorem no_input_validation:
  "((LoanScenarioAnalyzer_calculate_monthly_payment P rate y = Inl e) =
    (LoanScenarioAnalyzer_calculate_monthly_payment P' rate y = Inl e)) \<and>
   ((LoanAnalyzer_calculate_monthly_payment (LoanAnalyzer_init P rate y) = Inl e) =
    (LoanAnalyzer_calculate_monthly_payment (LoanAnalyzer_init P' rate y) = Inl e)) \<and>
   (y \<noteq> 0 \<longrightarrow> LoanScenarioAnalyzer_calculate_monthly_payment P 0 y = Inr (P / (y * 12))) \<and>
   (py_int (y * 12) \<noteq> 0 \<longrightarrow>
      LoanAnalyzer_calculate_monthly_payment (LoanAnalyzer_init P 0 y) =
        Inr (P / of_int (py_int (y * 12)))) \<and>
   LoanScenarioAnalyzer_calculate_monthly_payment P rate 0 = Inl ZeroDivisionError \<and>
   LoanScenarioAnalyzer_create_amortization_schedule P rate 0 sm = Inl ZeroDivisionError \<and>
   (py_int (y * 12) = 0 \<longrightarrow>
      LoanAnalyzer_calculate_monthly_payment (LoanAnalyzer_init P rate y) =
        Inl ZeroDivisionError \<and>
      LoanAnalyzer_create_amortization_schedule (LoanAnalyzer_init P rate y) sd now =
        Inl ZeroDivisionError) \<and>
   (LoanScenarioAnalyzer_calculate_monthly_payment P rate y = Inl e \<and> e \<noteq> ComplexResult \<longrightarrow>
      LoanScenarioAnalyzer_create_amortization_schedule P rate y sm = Inl e) \<and>
   (LoanScenarioAnalyzer_calculate_monthly_payment P rate y = Inl ComplexResult \<longrightarrow>
      LoanScenarioAnalyzer_create_amortization_schedule P rate y sm =
        (if py_int (y * 12) \<le> 0 then Inr [] else Inl TypeError)) \<and>
   (LoanAnalyzer_calculate_monthly_payment (LoanAnalyzer_init P rate y) = Inl e \<longrightarrow>
      LoanAnalyzer_create_amortization_schedule (LoanAnalyzer_init P rate y) sd now = Inl e)"
proof -
  note a = LSA_payment_error_any_principal [of P rate y e P']
  note b = LA_payment_error_any_principal [of P rate y e P']
  have c: "LoanScenarioAnalyzer_calculate_monthly_payment P 0 y = Inr (P / (y * 12))"
    if "y \<noteq> 0"
    using that by (rule LSA_payment_zero_rate)
  have d: "LoanAnalyzer_calculate_monthly_payment (LoanAnalyzer_init P 0 y) =
        Inr (P / of_int (py_int (y * 12)))"
    if "py_int (y * 12) \<noteq> 0"
    using that by (rule LA_payment_zero_rate)
  have f: "LoanScenarioAnalyzer_calculate_monthly_payment P rate 0 = Inl ZeroDivisionError"
    by (rule LSA_payment_zero_years)
  then have g: "LoanScenarioAnalyzer_create_amortization_schedule P rate 0 sm =
      Inl ZeroDivisionError"
    by (rule LSA_create_Inl) simp
  have h: "LoanAnalyzer_calculate_monthly_payment (LoanAnalyzer_init P rate y) =
        Inl ZeroDivisionError \<and>
      LoanAnalyzer_create_amortization_schedule (LoanAnalyzer_init P rate y) sd now =
        Inl ZeroDivisionError"
    if "py_int (y * 12) = 0"
    using LA_payment_zero_periods [OF that, of P rate] by (simp add: LA_create_Inl)
  have i: "LoanScenarioAnalyzer_create_amortization_schedule P rate y sm = Inl e"
    if "LoanScenarioAnalyzer_calculate_monthly_payment P rate y = Inl e" "e \<noteq> ComplexResult"
    using that by (rule LSA_create_Inl)
  have j: "LoanScenarioAnalyzer_create_amortization_schedule P rate y sm =
        (if py_int (y * 12) \<le> 0 then Inr [] else Inl TypeError)"
    if "LoanScenarioAnalyzer_calculate_monthly_payment P rate y = Inl ComplexResult"
    using that by (rule LSA_create_complex)
  have k: "LoanAnalyzer_create_amortization_schedule (LoanAnalyzer_init P rate y) sd now = Inl e"
    if "LoanAnalyzer_calculate_monthly_payment (LoanAnalyzer_init P rate y) = Inl e"
    using that by (rule LA_create_Inl)
  from a b c d f g h i j k show ?thesis by blast
qed

text \<open>
  A negative principal over a negative term at no interest gives a payment in both
  implementations; a term of 0.75 months in \<^verbatim>\<open>LoanAnalyzer\<close> and a term of 0 in
  \<^verbatim>\<open>LoanScenarioAnalyzer\<close> give \<^verbatim>\<open>ZeroDivisionError\<close>; a rate of -1300 percent gives the
  empty schedule over 0.6 months and \<^verbatim>\<open>TypeError\<close> over 1.5 months.
\<close>

theorem no_input_validation_witness:
  "LoanScenarioAnalyzer_calculate_monthly_payment (- 1200) 0 (- 10) = Inr 10 \<and>
   LoanAnalyzer_calculate_monthly_payment (LoanAnalyzer_init (- 1200) 0 (- 10)) = Inr 10 \<and>
   LoanAnalyzer_create_amortization_schedule (LoanAnalyzer_init 100 5 (1 / 16)) None
     \<lparr>year = 2024, month = 11, day = 15, time_of_day = 0\<rparr> = Inl ZeroDivisionError \<and>
   LoanScenarioAnalyzer_create_amortization_schedule 100 5 0 1 = Inl ZeroDivisionError \<and>
   LoanScenarioAnalyzer_create_amortization_schedule 100 (- 1300) (1 / 20) 1 = Inr [] \<and>
   LoanScenarioAnalyzer_create_amortization_schedule 100 (- 1300) (1 / 8) 1 = Inl TypeError"
  using no_input_validation [of "- 1200" 0 "- 10" ZeroDivisionError 1200 1 None
      "\<lparr>year = 2024, month = 11, day = 15, time_of_day = 0\<rparr>"]
    no_input_validation [of 100 5 "1 / 16" ZeroDivisionError 100 1 None
      "\<lparr>year = 2024, month = 11, day = 15, time_of_day = 0\<rparr>"]
    no_input_validation [of 100 "- 1300" "1 / 20" ComplexResult 100 1 None
      "\<lparr>year = 2024, month = 11, day = 15, time_of_day = 0\<rparr>"]
    no_input_validation [of 100 "- 1300" "1 / 8" ComplexResult 100 1 None
      "\<lparr>year = 2024, month = 11, day = 15, time_of_day = 0\<rparr>"]
    LSA_payment_complex_example
  by (simp add: py_int_def)

text \<open>
  Claim C6 as stated fails for each of its three conditions. A principal of -1200 (at no
  interest over 10 years) gives the payment -10 and a schedule of one record; a rate of
  -12 percent (100 over a quarter of a year) gives a payment of about 32.67; a term of
  -10 years (1200 at no interest) gives the payment -10 and an empty schedule.
\<close>

theorem no_input_validation_counterexample:
  "LoanScenarioAnalyzer_calculate_monthly_payment (- 1200) 0 10 = Inr (- 10) \<and>
   LoanScenarioAnalyzer_create_amortization_schedule (- 1200) 0 10 1 =
     Inr [\<lparr>Payment = 1, Beginning_Balance = - 1200, Payment_Amount = - 10,
           Principal = - 10, Interest = 0, Ending_Balance = 0\<rparr>] \<and>
   LoanScenarioAnalyzer_calculate_monthly_payment 100 (- 12) (1 / 4) = Inr (970299 / 29701) \<and>
   LoanScenarioAnalyzer_calculate_monthly_payment 1200 0 (- 10) = Inr (- 10) \<and>
   LoanScenarioAnalyzer_create_amortization_schedule 1200 0 (- 10) 1 = Inr []"
  by (simp add: LoanScenarioAnalyzer_create_amortization_schedule_def
      LoanScenarioAnalyzer_calculate_monthly_payment_def py_truediv_def py_int_def py_range_def
      py_pow_def power_divide upt_conv_Cons Let_def)

text \<open>
  Claim C8, as amended. \<^verbatim>\<open>LoanAnalyzer.create_amortization_schedule\<close> called with a
  \<^verbatim>\<open>start_date\<close> does not depend on the clock; called without one, it labels the records
  from \<^verbatim>\<open>datetime.now()\<close>, and two calls return the same result when the clock reads the
  same calendar date at both. \<^verbatim>\<open>LoanScenarioAnalyzer.create_amortization_schedule\<close>
  depends on \<open>principal\<close>, \<open>annual_rate\<close> and \<open>years\<close> only.
\<close>

theorem schedule_determined_by_date:
  "LoanAnalyzer_create_amortization_schedule self (Some d) now1 =
     LoanAnalyzer_create_amortization_schedule self (Some d) now2 \<and>
   (strftime_Ymd now1 = strftime_Ymd now2 \<longrightarrow>
      LoanAnalyzer_create_amortization_schedule self None now1 =
        LoanAnalyzer_create_amortization_schedule self None now2) \<and>
   LoanScenarioAnalyzer_create_amortization_schedule P rate y sm1 =
     LoanScenarioAnalyzer_create_amortization_schedule P rate y sm2"
proof (intro conjI impI)
  show "LoanAnalyzer_create_amortization_schedule self (Some d) now1 =
     LoanAnalyzer_create_amortization_schedule self (Some d) now2"
    by (simp add: LoanAnalyzer_create_amortization_schedule_def)
  show "LoanAnalyzer_create_amortization_schedule self None now1 =
        LoanAnalyzer_create_amortization_schedule self None now2"
    if "strftime_Ymd now1 = strftime_Ymd now2"
    using app_schedule_loop_date [OF that]
    by (simp add: LoanAnalyzer_create_amortization_schedule_def split: sum.splits)
  show "LoanScenarioAnalyzer_create_amortization_schedule P rate y sm1 =
     LoanScenarioAnalyzer_create_amortization_schedule P rate y sm2"
    by (simp add: LoanScenarioAnalyzer_create_amortization_schedule_def)
qed

text \<open>
  Two calls without a start date on the same day, at midnight and one second before the
  next.
\<close>

theorem schedule_determined_by_date_witness:
  "LoanAnalyzer_create_amortization_schedule (LoanAnalyzer_init 300 0 (1 / 4)) None
     \<lparr>year = 2024, month = 11, day = 15, time_of_day = 0\<rparr> =
   LoanAnalyzer_create_amortization_schedule (LoanAnalyzer_init 300 0 (1 / 4)) None
     \<lparr>year = 2024, month = 11, day = 15, time_of_day = 86399\<rparr>"
  using schedule_determined_by_date [of "LoanAnalyzer_init 300 0 (1 / 4)" _
      "\<lparr>year = 2024, month = 11, day = 15, time_of_day = 0\<rparr>"
      "\<lparr>year = 2024, month = 11, day = 15, time_of_day = 86399\<rparr>"]
  by (simp add: strftime_Ymd_def)

text \<open>
  Claim C8 as stated fails when the start date is omitted: the same loan scheduled on 15
  January and on 15 February gets different \<^verbatim>\<open>'Date'\<close> labels.
\<close>

theorem schedule_clock_counterexample:
  "LoanAnalyzer_create_amortization_schedule (LoanAnalyzer_init 300 0 (1 / 4)) None
     \<lparr>year = 2024, month = 1, day = 15, time_of_day = 0\<rparr> \<noteq>
   LoanAnalyzer_create_amortization_schedule (LoanAnalyzer_init 300 0 (1 / 4)) None
     \<lparr>year = 2024, month = 2, day = 15, time_of_day = 0\<rparr>"
  by (simp add: LoanAnalyzer_create_amortization_schedule_def
      LoanAnalyzer_calculate_monthly_payment_def LoanAnalyzer_init_def py_truediv_def
      py_int_def py_range_def upt_conv_Cons next_month_def datetime_replace_def
      days_in_month_def strftime_Ymd_def is_leap_def Let_def)

section \<open>Break-even\<close>

lemma scenario_row_breakeven:
  assumes "scenario_row self current_total i scenario = Inr row"
  shows "(0 < Monthly_Savings row \<longrightarrow>
            Breakeven_Months row = Months \<lceil>Refi_Costs row / Monthly_Savings row\<rceil>) \<and>
         (\<not> 0 < Monthly_Savings row \<longrightarrow> Breakeven_Months row = NA)"
  using assms by (auto simp: scenario_row_def Let_def split: sum.splits)

lemma scenario_loop_breakeven:
  "scenario_loop self current_total i scenarios = Inr rows \<Longrightarrow>
   length rows = length scenarios \<and>
   (\<forall>row \<in> set rows.
      (0 < Monthly_Savings row \<longrightarrow>
         Breakeven_Months row = Months \<lceil>Refi_Costs row / Monthly_Savings row\<rceil>) \<and>
      (\<not> 0 < Monthly_Savings row \<longrightarrow> Breakeven_Months row = NA))"
proof (induction scenarios arbitrary: i rows)
  case Nil
  then show ?case by simp
next
  case (Cons scenario scenarios)
  from Cons.prems obtain row rest where
    row: "scenario_row self current_total i scenario = Inr row" and
    rest: "scenario_loop self current_total (i + 1) scenarios = Inr rest" and
    rows: "rows = row # rest"
    by (auto split: sum.splits)
  from scenario_row_breakeven [OF row] Cons.IH [OF rest] rows show ?case by simp
qed

text \<open>
  Claim C5, as amended. Every row of \<^verbatim>\<open>LoanScenarioAnalyzer.scenario_analysis\<close> reports
  \<open>Breakeven_Months = ceil(Refi_Costs / Monthly_Savings)\<close>, a whole number of months, when
  its monthly savings are positive, and the distinct value \<^verbatim>\<open>'N/A'\<close> otherwise (the
  \<^verbatim>\<open>'Current'\<close> row included). \<^verbatim>\<open>main\<close> in \<^verbatim>\<open>loan_app.py\<close> shows the unrounded
  \<open>refi_costs / savings\<close> when the savings are positive and no break-even figure
  otherwise.
\<close>

theorem breakeven_reported:
  "(scenario_analysis self scenarios = Inr rows \<longrightarrow>
      length rows = Suc (length scenarios) \<and>
      (\<forall>row \<in> set rows.
         (0 < Monthly_Savings row \<longrightarrow>
            Breakeven_Months row = Months \<lceil>Refi_Costs row / Monthly_Savings row\<rceil>) \<and>
         (\<not> 0 < Monthly_Savings row \<longrightarrow> Breakeven_Months row = NA))) \<and>
   (0 < savings \<longrightarrow> main_break_even refi_costs savings = Some (refi_costs / savings)) \<and>
   (\<not> 0 < savings \<longrightarrow> main_break_even refi_costs savings = None) \<and>
   (\<not> 0 < savings \<longrightarrow> main_combined_break_even refi_costs savings = None)"
proof -
  have "length rows = Suc (length scenarios) \<and>
      (\<forall>row \<in> set rows.
         (0 < Monthly_Savings row \<longrightarrow>
            Breakeven_Months row = Months \<lceil>Refi_Costs row / Monthly_Savings row\<rceil>) \<and>
         (\<not> 0 < Monthly_Savings row \<longrightarrow> Breakeven_Months row = NA))"
    if "scenario_analysis self scenarios = Inr rows"
  proof -
    from that obtain first_row rest current_total where
      rest: "scenario_loop self current_total 1 scenarios = Inr rest" and
      rows: "rows = first_row # rest" and
      first: "Monthly_Savings first_row = 0" "Breakeven_Months first_row = NA"
      by (auto simp: scenario_analysis_def Let_def split: sum.splits)
    from scenario_loop_breakeven [OF rest] rows first show ?thesis by simp
  qed
  then show ?thesis
    by (simp add: main_break_even_def main_combined_break_even_def)
qed

lemma example_analysis:
  "scenario_analysis example_analyzer [longer_term, shorter_term] = Inr
     [\<lparr>Scenario = Label_Current, Apt_Rate = 0, Inv_Rate = 0, Apt_Payment = 100,
        Inv_Payment = 100, Total_Payment = 200, Monthly_Savings = 0, Annual_Savings = 0,
        Refi_Costs = 0, Breakeven_Months = NA\<rparr>,
      \<lparr>Scenario = Label_Scenario 1, Apt_Rate = 0, Inv_Rate = 0, Apt_Payment = 50,
        Inv_Payment = 100, Total_Payment = 150, Monthly_Savings = 50, Annual_Savings = 600,
        Refi_Costs = 70, Breakeven_Months = Months 2\<rparr>,
      \<lparr>Scenario = Label_Scenario 2, Apt_Rate = 0, Inv_Rate = 0, Apt_Payment = 200,
        Inv_Payment = 100, Total_Payment = 300, Monthly_Savings = - 100,
        Annual_Savings = - 1200, Refi_Costs = 5000, Breakeven_Months = NA\<rparr>]"
  by (simp add: scenario_analysis_def scenario_row_def example_analyzer_def dict_get_def
      longer_term_def shorter_term_def
      LoanScenarioAnalyzer_calculate_monthly_payment_def py_truediv_def Let_def)

text \<open>
  Two loans of 100 a month. Doubling the apartment's term saves 50 a month, and costs of
  70 break even in \<open>ceil(1.4) = 2\<close> months; halving the term costs 100 a month more, and
  the break-even is \<^verbatim>\<open>'N/A'\<close>.
\<close>

theorem breakeven_reported_witness:
  "\<exists>rows. scenario_analysis example_analyzer [longer_term, shorter_term] = Inr rows \<and>
     length rows = 3 \<and>
     Breakeven_Months (rows ! 0) = NA \<and>
     Breakeven_Months (rows ! 1) = Months 2 \<and>
     Breakeven_Months (rows ! 2) = NA \<and>
     main_break_even 3000 501 = Some (3000 / 501) \<and>
     main_break_even 3000 (- 10) = None \<and>
     main_combined_break_even 3000 (- 10) = None"
proof -
  obtain rows where
    e: "scenario_analysis example_analyzer [longer_term, shorter_term] = Inr rows" and
    s: "Monthly_Savings (rows ! 0) = 0" "Monthly_Savings (rows ! 1) = 50"
      "Refi_Costs (rows ! 1) = 70" "Monthly_Savings (rows ! 2) = - 100"
    using example_analysis by simp
  from breakeven_reported [of example_analyzer "[longer_term, shorter_term]" rows] e
  have len: "length rows = 3" and
    all: "\<forall>row \<in> set rows.
         (0 < Monthly_Savings row \<longrightarrow>
            Breakeven_Months row = Months \<lceil>Refi_Costs row / Monthly_Savings row\<rceil>) \<and>
         (\<not> 0 < Monthly_Savings row \<longrightarrow> Breakeven_Months row = NA)"
    by simp_all
  from len have "rows ! 0 \<in> set rows" "rows ! 1 \<in> set rows" "rows ! 2 \<in> set rows"
    by simp_all
  with all s have "Breakeven_Months (rows ! 0) = NA" "Breakeven_Months (rows ! 1) = Months 2"
    "Breakeven_Months (rows ! 2) = NA"
    by fastforce+
  moreover from breakeven_reported [of example_analyzer "[]" "[]" 501 3000]
  have "main_break_even 3000 501 = Some (3000 / 501)" by simp
  moreover from breakeven_reported [of example_analyzer "[]" "[]" "- 10" 3000]
  have "main_break_even 3000 (- 10) = None" "main_combined_break_even 3000 (- 10) = None"
    by simp_all
  ultimately show ?thesis using e len by blast
qed

text \<open>
  Claim C5 as stated fails in \<^verbatim>\<open>scenario_analysis\<close>: with savings of 50 a month and
  costs of 70 the row reports 2 months, not \<open>70 / 50 = 1.4\<close>.
\<close>

theorem breakeven_ceiling_counterexample:
  "scenario_analysis example_analyzer [longer_term] = Inr
     [\<lparr>Scenario = Label_Current, Apt_Rate = 0, Inv_Rate = 0, Apt_Payment = 100,
        Inv_Payment = 100, Total_Payment = 200, Monthly_Savings = 0, Annual_Savings = 0,
        Refi_Costs = 0, Breakeven_Months = NA\<rparr>,
      \<lparr>Scenario = Label_Scenario 1, Apt_Rate = 0, Inv_Rate = 0, Apt_Payment = 50,
        Inv_Payment = 100, Total_Payment = 150, Monthly_Savings = 50, Annual_Savings = 600,
        Refi_Costs = 70, Breakeven_Months = Months 2\<rparr>] \<and>
   (70 :: real) / 50 \<noteq> of_int 2"
  by (simp add: scenario_analysis_def scenario_row_def example_analyzer_def dict_get_def
      longer_term_def shorter_term_def
      LoanScenarioAnalyzer_calculate_monthly_payment_def py_truediv_def Let_def)

end
